theory Spec2Isabelle
  imports Main
begin

section \<open>JavaScript values and the built-ins the data layer relies on\<close>

text \<open>
  The data-access module receives untyped payloads (\<^verbatim>\<open>dataPoint: any\<close>). A payload is
  modelled as a JSON-like value, extended with \<^verbatim>\<open>undefined\<close>. A number is kept as the
  text \<^verbatim>\<open>Number.prototype.toString\<close> gives it: the module never computes with the numbers
  of a payload, it only renders them or hands them on. An object is the list of its own
  properties in the order \<^verbatim>\<open>Object.keys\<close> enumerates them; the keys of an object are
  distinct. Characters are single code units.
\<close>

datatype jsval =
    JUndefined
  | JNull
  | JBool bool
  | JNum string
  | JStr string
  | JArr "jsval list"
  | JObj "(string \<times> jsval) list"

type_synonym jsobject = "(string \<times> jsval) list"

text \<open>Every \<^verbatim>\<open>throw\<close> of the module, and the runtime's TypeError, is a value.\<close>

datatype error =
    TypeError
  | ArrayContainsNull
  | InvalidGroups jsval
  | InvalidAge jsval
  | UnexpectedKey string
  | NoTablePossible "string list"
  | NoTablenameFound string
  | NoDataPointFound jsval
  | DatabaseError string

definition newline :: string where
  "newline = [CHR 0x0A]"

definition spaces :: "nat \<Rightarrow> string" where
  "spaces n = replicate n (CHR '' '')"

text \<open>\<^verbatim>\<open>Array.prototype.join\<close> on an array of strings.\<close>

fun join :: "string \<Rightarrow> string list \<Rightarrow> string" where
  "join sep [] = []"
| "join sep [x] = x"
| "join sep (x # y # ys) = x @ sep @ join sep (y # ys)"

text \<open>\<^verbatim>\<open>o[k]\<close> on an object: the value of the property, \<^verbatim>\<open>undefined\<close> when absent.\<close>

definition getProp :: "jsobject \<Rightarrow> string \<Rightarrow> jsval" where
  "getProp obj k = (case map_of obj k of Some v \<Rightarrow> v | None \<Rightarrow> JUndefined)"

text \<open>
  \<^verbatim>\<open>o[k] = v\<close> on an object: an existing property keeps its place, a new one is
  enumerated last.
\<close>

fun setProp :: "jsobject \<Rightarrow> string \<Rightarrow> jsval \<Rightarrow> jsobject" where
  "setProp [] k v = [(k, v)]"
| "setProp ((k', v') # rest) k v =
     (if k' = k then (k, v) # rest else (k', v') # setProp rest k v)"

text \<open>
  \<^verbatim>\<open>value.name\<close> for the names the module reads (\<^verbatim>\<open>type\<close>, \<^verbatim>\<open>longitude\<close>,
  \<^verbatim>\<open>latitude\<close>): a TypeError on \<^verbatim>\<open>undefined\<close> and \<^verbatim>\<open>null\<close>, the property of an
  object, \<^verbatim>\<open>undefined\<close> on a primitive or an array.
\<close>

definition getMember :: "jsval \<Rightarrow> string \<Rightarrow> error + jsval" where
  "getMember v k =
     (case v of
        JUndefined \<Rightarrow> Inl TypeError
      | JNull \<Rightarrow> Inl TypeError
      | JObj obj \<Rightarrow> Inr (getProp obj k)
      | _ \<Rightarrow> Inr JUndefined)"

text \<open>
  \<^verbatim>\<open>x.toString()\<close> on an object that is not an array. The values of a payload are data:
  an own property \<^verbatim>\<open>toString\<close> is not callable and the call raises a TypeError;
  otherwise the method is the one of \<^verbatim>\<open>Object.prototype\<close>.
\<close>

definition objectToString :: "jsobject \<Rightarrow> error + string" where
  "objectToString obj =
     (if ''toString'' \<in> set (map fst obj) then Inl TypeError else Inr ''[object Object]'')"

text \<open>
  The string conversion of a template literal \<^verbatim>\<open>`${x}`\<close>. An array renders its elements
  separated by a comma, \<^verbatim>\<open>null\<close> and \<^verbatim>\<open>undefined\<close> elements as the empty text. An
  object is converted through its \<^verbatim>\<open>toString\<close> method; with an own property of that
  name, which is not callable, the inherited \<^verbatim>\<open>valueOf\<close> gives no primitive and the
  conversion raises a TypeError.
\<close>

fun toString :: "jsval \<Rightarrow> error + string"
  and toStringElements :: "jsval list \<Rightarrow> error + string list" where
  "toString JUndefined = Inr ''undefined''"
| "toString JNull = Inr ''null''"
| "toString (JBool b) = Inr (if b then ''true'' else ''false'')"
| "toString (JNum s) = Inr s"
| "toString (JStr s) = Inr s"
| "toString (JArr xs) =
     (case toStringElements xs of Inl e \<Rightarrow> Inl e | Inr ss \<Rightarrow> Inr (join '','' ss))"
| "toString (JObj obj) = objectToString obj"
| "toStringElements [] = Inr []"
| "toStringElements (x # xs) =
     (case (if x = JNull \<or> x = JUndefined then Inr [] else toString x) of
        Inl e \<Rightarrow> Inl e
      | Inr s \<Rightarrow>
          (case toStringElements xs of Inl e \<Rightarrow> Inl e | Inr ss \<Rightarrow> Inr (s # ss)))"

subsection \<open>JSON.stringify\<close>

definition hexDigit :: "nat \<Rightarrow> char" where
  "hexDigit n = ''0123456789abcdef'' ! (n mod 16)"

definition backslash :: char where
  "backslash = CHR 0x5C"

definition jsonEscape :: "char \<Rightarrow> string" where
  "jsonEscape c =
     (if c = CHR 0x22 then [backslash, CHR 0x22]
      else if c = backslash then [backslash, backslash]
      else if c = CHR 0x08 then [backslash, CHR ''b'']
      else if c = CHR 0x09 then [backslash, CHR ''t'']
      else if c = CHR 0x0A then [backslash, CHR ''n'']
      else if c = CHR 0x0C then [backslash, CHR ''f'']
      else if c = CHR 0x0D then [backslash, CHR ''r'']
      else if (of_char c :: nat) < 32
        then [backslash, CHR ''u'', CHR ''0'', CHR ''0'',
              hexDigit (of_char c div 16), hexDigit (of_char c)]
      else [c])"

definition jsonQuote :: "string \<Rightarrow> string" where
  "jsonQuote s = [CHR 0x22] @ concat (map jsonEscape s) @ [CHR 0x22]"

text \<open>
  \<^verbatim>\<open>JSON.stringify(x)\<close>; \<open>None\<close> is the result \<^verbatim>\<open>undefined\<close>. A number that is not
  finite and an \<^verbatim>\<open>undefined\<close> array element are written \<^verbatim>\<open>null\<close>; a property whose value
  is \<^verbatim>\<open>undefined\<close> is left out.
\<close>

fun JSON_stringify :: "jsval \<Rightarrow> string option"
  and stringifyElements :: "jsval list \<Rightarrow> string list"
  and stringifyMembers :: "(string \<times> jsval) list \<Rightarrow> string list" where
  "JSON_stringify JUndefined = None"
| "JSON_stringify JNull = Some ''null''"
| "JSON_stringify (JBool b) = Some (if b then ''true'' else ''false'')"
| "JSON_stringify (JNum s) =
     Some (if s \<in> {''NaN'', ''Infinity'', ''-Infinity''} then ''null'' else s)"
| "JSON_stringify (JStr s) = Some (jsonQuote s)"
| "JSON_stringify (JArr xs) = Some (''['' @ join '','' (stringifyElements xs) @ '']'')"
| "JSON_stringify (JObj obj) = Some (''{'' @ join '','' (stringifyMembers obj) @ ''}'')"
| "stringifyElements [] = []"
| "stringifyElements (x # xs) =
     (case JSON_stringify x of None \<Rightarrow> ''null'' | Some s \<Rightarrow> s) # stringifyElements xs"
| "stringifyMembers [] = []"
| "stringifyMembers ((k, v) # rest) =
     (case JSON_stringify v of
        None \<Rightarrow> stringifyMembers rest
      | Some s \<Rightarrow> (jsonQuote k @ '':'' @ s) # stringifyMembers rest)"

section \<open>The data-access module\<close>

subsection \<open>Field vocabularies\<close>

definition validDataPointProperties :: "string list" where
  "validDataPointProperties =
     [''survey_id'', ''data_point_id'', ''gender'', ''age'', ''mode'', ''posture'',
      ''activities'', ''groups'', ''object'', ''location'', ''creation_date'',
      ''last_updated'', ''note'']"

definition genderLocationArray :: "string list" where
  "genderLocationArray = [''gender'', ''location'']"

definition allGehlFieldsArray :: "string list" where
  "allGehlFieldsArray =
     [''gender'', ''age'', ''mode'', ''posture'', ''activities'', ''groups'', ''object'',
      ''location'', ''creation_date'', ''last_updated'', ''note'']"

text \<open>
  \<^verbatim>\<open>new Set(xs)\<close>, as the list of its elements in insertion order: each element is added
  in turn and an element already present keeps its place.
\<close>

definition setAdd :: "'a list \<Rightarrow> 'a \<Rightarrow> 'a list" where
  "setAdd s x = (if x \<in> set s then s else s @ [x])"

definition newSet :: "'a list \<Rightarrow> 'a list" where
  "newSet xs = foldl setAdd [] xs"

definition genderLocation :: "string list" where
  "genderLocation = newSet genderLocationArray"

definition allGehlFields :: "string list" where
  "allGehlFields = newSet allGehlFieldsArray"

text \<open>\<^verbatim>\<open>Array.from(s).toString()\<close>: the elements in insertion order, joined by a comma.\<close>

definition setString :: "string list \<Rightarrow> string" where
  "setString s = join '','' s"

subsection \<open>Decimal rendering of the placeholder index\<close>

definition digitChar :: "nat \<Rightarrow> char" where
  "digitChar d =
     (if d = 0 then CHR ''0'' else if d = 1 then CHR ''1'' else if d = 2 then CHR ''2''
      else if d = 3 then CHR ''3'' else if d = 4 then CHR ''4'' else if d = 5 then CHR ''5''
      else if d = 6 then CHR ''6'' else if d = 7 then CHR ''7'' else if d = 8 then CHR ''8''
      else CHR ''9'')"

fun showNat :: "nat \<Rightarrow> string" where
  "showNat n = (if n < 10 then [digitChar n] else showNat (n div 10) @ [digitChar (n mod 10)])"

declare showNat.simps [simp del]

subsection \<open>Postgres array literals\<close>

text \<open>
  \<^verbatim>\<open>javascriptArrayToPostgresArray\<close> maps every element and joins the results with
  \<^verbatim>\<open>', '\<close>. \<open>arrayElement\<close> is the callback of the \<^verbatim>\<open>map\<close> followed by the rendering
  \<^verbatim>\<open>join\<close> gives the result: a string is written as it is, without quotes; an object
  is written by \<^verbatim>\<open>x.toString()\<close>, which may raise; a value returned as it is (a number,
  a boolean, \<^verbatim>\<open>undefined\<close>) is rendered by \<^verbatim>\<open>join\<close>, \<^verbatim>\<open>undefined\<close> as the empty
  text.
\<close>

fun javascriptArrayToPostgresArray :: "jsval list \<Rightarrow> error + string"
  and arrayElements :: "jsval list \<Rightarrow> error + string list"
  and arrayElement :: "jsval \<Rightarrow> error + string" where
  "javascriptArrayToPostgresArray xs =
     (case arrayElements xs of
        Inl e \<Rightarrow> Inl e
      | Inr arrayElems \<Rightarrow> Inr (''{'' @ join '', '' arrayElems @ ''}''))"
| "arrayElements [] = Inr []"
| "arrayElements (x # xs) =
     (case arrayElement x of
        Inl e \<Rightarrow> Inl e
      | Inr s \<Rightarrow> (case arrayElements xs of Inl e \<Rightarrow> Inl e | Inr ss \<Rightarrow> Inr (s # ss)))"
| "arrayElement JNull = Inl ArrayContainsNull"
| "arrayElement (JStr s) = Inr s"
| "arrayElement (JArr ys) = javascriptArrayToPostgresArray ys"
| "arrayElement (JObj obj) = objectToString obj"
| "arrayElement JUndefined = Inr []"
| "arrayElement (JBool b) = Inr (if b then ''true'' else ''false'')"
| "arrayElement (JNum s) = Inr s"

definition wrapInArray :: "jsval \<Rightarrow> jsval list" where
  "wrapInArray x = (case x of JArr xs \<Rightarrow> xs | _ \<Rightarrow> [x])"

definition studyIdToTablename :: "string \<Rightarrow> string" where
  "studyIdToTablename studyId = ''data_collection.study_'' @ filter (\<lambda>c. c \<noteq> CHR ''-'') studyId"

subsection \<open>Table provisioning\<close>

definition createNewTableFromGehlFields :: "'study \<Rightarrow> string \<Rightarrow> string list \<Rightarrow> error + string" where
  "createNewTableFromGehlFields study tablename fields =
     (let asSet = newSet fields;
          comparisionString = setString asSet
      in if comparisionString = setString genderLocation then
           Inr (''CREATE TABLE '' @ tablename @ '' ('' @ newline @ spaces 20 @
             ''survey_id UUID references data_collection.survey(survey_id) NOT NULL,'' @ newline @ spaces 20 @
             ''data_point_id UUID PRIMARY KEY NOT NULL,'' @ newline @ spaces 20 @
             ''gender data_collection.gender,'' @ newline @ spaces 20 @
             ''creation_date timestamptz,'' @ newline @ spaces 20 @
             ''last_updated timestamptz,'' @ newline @ spaces 20 @
             ''location geometry NOT NULL'' @ newline @ spaces 20 @
             '')'')
         else if comparisionString = setString allGehlFields then
           Inr (''CREATE TABLE '' @ tablename @ '' ('' @ newline @ spaces 20 @
             ''survey_id UUID references data_collection.survey(survey_id) NOT NULL,'' @ newline @ spaces 20 @
             ''data_point_id UUID PRIMARY KEY NOT NULL,'' @ newline @ spaces 20 @
             ''gender data_collection.gender,'' @ newline @ spaces 20 @
             ''age varchar(64),'' @ newline @ spaces 20 @
             ''mode data_collection.mode,'' @ newline @ spaces 20 @
             ''posture data_collection.posture,'' @ newline @ spaces 20 @
             ''activities data_collection.activities[],'' @ newline @ spaces 20 @
             ''groups data_collection.groups,'' @ newline @ spaces 20 @
             ''object data_collection.object,'' @ newline @ spaces 20 @
             ''location geometry NOT NULL,'' @ newline @ spaces 20 @
             ''creation_date timestamptz,'' @ newline @ spaces 20 @
             ''last_updated timestamptz,'' @ newline @ spaces 20 @
             ''note text'' @ newline @ spaces 20 @
             '')'')
         else Inl (NoTablePossible fields))"

subsection \<open>Encoding a data point\<close>

record prepared =
  columns :: "string list"
  values' :: "jsval list"
  parameterBindings :: "string list"
  index :: nat

definition convertKeyToParamterBinding :: "nat \<Rightarrow> string \<Rightarrow> jsval \<Rightarrow> error + (nat \<times> string)" where
  "convertKeyToParamterBinding idx key val =
     (if key = ''location'' then
        (case getMember val ''type'' of
           Inl e \<Rightarrow> Inl e
         | Inr t \<Rightarrow>
             if t = JStr ''Point''
             then Inr (idx + 1, ''ST_GeomFromGeoJSON($'' @ showNat idx @ '')'')
             else Inr (idx + 2,
                       ''ST_GeomFromText($'' @ showNat idx @ '', $'' @ showNat (idx + 1) @ '')''))
      else Inr (idx + 1, ''$'' @ showNat idx))"

definition processDataPointToValue :: "string \<Rightarrow> jsval \<Rightarrow> error + jsval" where
  "processDataPointToValue key val =
     (if key = ''location'' then
        (case getMember val ''type'' of
           Inl e \<Rightarrow> Inl e
         | Inr t \<Rightarrow>
             if t = JStr ''Point''
             then Inr (case JSON_stringify val of Some s \<Rightarrow> JStr s | None \<Rightarrow> JUndefined)
             else (case getMember val ''longitude'' of
                     Inl e \<Rightarrow> Inl e
                   | Inr longitude \<Rightarrow>
                       (case getMember val ''latitude'' of
                          Inl e \<Rightarrow> Inl e
                        | Inr latitude \<Rightarrow> Inr (JArr [longitude, latitude]))))
      else if key = ''groups'' then
        (if val = JStr ''single'' then Inr (JStr ''group_1'')
         else if val = JStr ''pair'' then Inr (JStr ''group_2'')
         else if val = JStr ''group'' then Inr (JStr ''group_3-7'')
         else if val = JStr ''crowd'' then Inr (JStr ''group_8+'')
         else Inl (InvalidGroups val))
      else if key = ''age'' then
        (if val = JStr ''child'' then Inr (JStr ''0-14'')
         else if val = JStr ''young'' then Inr (JStr ''15-24'')
         else if val = JStr ''adult'' then Inr (JStr ''25-64'')
         else if val = JStr ''elderly'' then Inr (JStr ''65+'')
         else Inl (InvalidAge val))
      else if key = ''activities'' then
        (let activitesAsArr = (case val of JArr xs \<Rightarrow> xs | _ \<Rightarrow> [val])
         in case javascriptArrayToPostgresArray activitesAsArr of
              Inl e \<Rightarrow> Inl e
            | Inr s \<Rightarrow> Inr (JStr s))
      else if key \<in> set validDataPointProperties then
        (case toString val of Inl e \<Rightarrow> Inl e | Inr s \<Rightarrow> Inr (JStr s))
      else Inl (UnexpectedKey key))"

text \<open>
  The reducer: the key is pushed on the columns, the binding is computed (and may raise),
  then the value (which may raise); an exception leaves the whole reduction.
\<close>

definition processDataPointToPreparedStatement ::
    "prepared \<Rightarrow> string \<times> jsval \<Rightarrow> error + prepared" where
  "processDataPointToPreparedStatement acc curr' =
     (let key = fst curr'; val = snd curr' in
      case convertKeyToParamterBinding (index acc) key val of
        Inl e \<Rightarrow> Inl e
      | Inr (idx, binding) \<Rightarrow>
          (case processDataPointToValue key val of
             Inl e \<Rightarrow> Inl e
           | Inr v \<Rightarrow>
               Inr \<lparr> columns = columns acc @ [key],
                     values' = values' acc @ wrapInArray v,
                     parameterBindings = parameterBindings acc @ [binding],
                     index = idx \<rparr>))"

text \<open>\<^verbatim>\<open>Array.prototype.reduce\<close> with a callback that may throw.\<close>

fun reduce :: "('a \<Rightarrow> 'b \<Rightarrow> error + 'a) \<Rightarrow> 'b list \<Rightarrow> 'a \<Rightarrow> error + 'a" where
  "reduce f [] acc = Inr acc"
| "reduce f (x # xs) acc = (case f acc x of Inl e \<Rightarrow> Inl e | Inr acc' \<Rightarrow> reduce f xs acc')"

definition processKeyAndValues :: "jsobject \<Rightarrow> error + prepared" where
  "processKeyAndValues dataPoint =
     reduce processDataPointToPreparedStatement dataPoint
       \<lparr> columns = [], values' = [], parameterBindings = [], index = 1 \<rparr>"

text \<open>
  A property is deleted when its key is not one of \<open>allGehlFields\<close> or its value is
  \<^verbatim>\<open>null\<close>; the others keep their order.
\<close>

definition deleteNonGehlFields :: "jsobject \<Rightarrow> jsobject" where
  "deleteNonGehlFields obj =
     filter (\<lambda>(x, v). \<not> (x \<notin> set allGehlFields \<or> v = JNull)) obj"

text \<open>
  The object \<^verbatim>\<open>transformToPostgresInsert\<close> hands to \<^verbatim>\<open>processKeyAndValues\<close>: the data
  point after \<open>deleteNonGehlFields\<close>, with \<^verbatim>\<open>survey_id\<close> and then \<^verbatim>\<open>data_point_id\<close>
  assigned, the latter read from the data point before the deletion.
\<close>

definition dataPointForPostgres :: "string \<Rightarrow> jsobject \<Rightarrow> jsobject" where
  "dataPointForPostgres surveyId dataPoint =
     (let data_point_id = getProp dataPoint ''data_point_id'';
          obj = deleteNonGehlFields dataPoint;
          obj = setProp obj ''survey_id'' (JStr surveyId)
      in setProp obj ''data_point_id'' data_point_id)"

definition insert_statement :: "string list \<Rightarrow> string list \<Rightarrow> string" where
  "insert_statement cols bindings =
     ''('' @ join '', '' cols @ '') VALUES ('' @ join '', '' bindings @ '')''"

definition upsertQuery :: "string list \<Rightarrow> string list \<Rightarrow> string" where
  "upsertQuery cols bindings =
     insert_statement cols bindings @ newline @ spaces 12 @
     ''ON CONFLICT(data_point_id)'' @ newline @ spaces 12 @
     ''DO UPDATE SET('' @ join '', '' cols @ '') = ('' @ join '', '' bindings @ '')''"

definition transformToPostgresInsert :: "string \<Rightarrow> jsobject \<Rightarrow> error + (string \<times> jsval list)" where
  "transformToPostgresInsert surveyId dataPoint =
     (case processKeyAndValues (dataPointForPostgres surveyId dataPoint) of
        Inl e \<Rightarrow> Inl e
      | Inr acc \<Rightarrow> Inr (upsertQuery (columns acc) (parameterBindings acc), values' acc))"

subsection \<open>The persistence gateway\<close>

text \<open>
  The connection pool is the module's only collaborator. \<^verbatim>\<open>pool.query(text, values)\<close> is
  a function of the database state: it returns the result of the statement, or the error
  it is rejected with, and the state the statement leaves. The module reads two fields of
  a result.
\<close>

record pgresult =
  rowCount :: nat
  rows :: "jsobject list"

type_synonym 'db pool = "'db \<Rightarrow> string \<Rightarrow> jsval list option \<Rightarrow> (error + pgresult) \<times> 'db"

definition tablenameQuery :: "string \<Rightarrow> string" where
  "tablenameQuery surveyId =
     ''SELECT tablename'' @ newline @ spaces 19 @
     ''FROM  data_collection.survey_to_tablename'' @ newline @ spaces 19 @
     ''WHERE survey_id = '' @ [CHR 0x27] @ surveyId @ [CHR 0x27]"

definition getTablenameForSurveyId :: "'db pool \<Rightarrow> string \<Rightarrow> 'db \<Rightarrow> (error + jsval) \<times> 'db" where
  "getTablenameForSurveyId pool surveyId db =
     (case pool db (tablenameQuery surveyId) None of
        (Inl e, db') \<Rightarrow> (Inl e, db')
      | (Inr pgRes, db') \<Rightarrow>
          if rowCount pgRes = 1 then
            (case rows pgRes of
               [] \<Rightarrow> (Inl TypeError, db')
             | row # _ \<Rightarrow> (Inr (getProp row ''tablename''), db'))
          else (Inl (NoTablenameFound surveyId), db'))"

definition insertQuery :: "jsval \<Rightarrow> string \<Rightarrow> error + string" where
  "insertQuery tablename query =
     (case toString tablename of
        Inl e \<Rightarrow> Inl e
      | Inr name \<Rightarrow> Inr (''INSERT INTO '' @ name @ newline @ spaces 19 @ query))"

definition addDataPointToSurveyNoStudyId ::
    "'db pool \<Rightarrow> string \<Rightarrow> jsobject \<Rightarrow> 'db \<Rightarrow> (error + pgresult) \<times> 'db" where
  "addDataPointToSurveyNoStudyId pool surveyId dataPoint db =
     (case getTablenameForSurveyId pool surveyId db of
        (Inl e, db') \<Rightarrow> (Inl e, db')
      | (Inr tablename, db') \<Rightarrow>
          (let dataPointWithSurveyId = setProp dataPoint ''survey_id'' (JStr surveyId)
           in case transformToPostgresInsert surveyId dataPointWithSurveyId of
                Inl e \<Rightarrow> (Inl e, db')
              | Inr (query, vals) \<Rightarrow>
                  (case insertQuery tablename query of
                     Inl e \<Rightarrow> (Inl e, db')
                   | Inr text \<Rightarrow> pool db' text (Some vals))))"

definition deleteQuery :: "jsval \<Rightarrow> jsval \<Rightarrow> error + string" where
  "deleteQuery tablename dataPointId =
     (case toString tablename of
        Inl e \<Rightarrow> Inl e
      | Inr name \<Rightarrow>
          (case toString dataPointId of
             Inl e \<Rightarrow> Inl e
           | Inr ident \<Rightarrow>
               Inr (''DELETE FROM '' @ name @ newline @ spaces 19 @
                    ''WHERE data_point_id = '' @ [CHR 0x27] @ ident @ [CHR 0x27])))"

definition deleteDataPoint ::
    "'db pool \<Rightarrow> string \<Rightarrow> jsval \<Rightarrow> 'db \<Rightarrow> (error + pgresult) \<times> 'db" where
  "deleteDataPoint pool surveyId dataPointId db =
     (case getTablenameForSurveyId pool surveyId db of
        (Inl e, db') \<Rightarrow> (Inl e, db')
      | (Inr tablename, db') \<Rightarrow>
          (case deleteQuery tablename dataPointId of
             Inl e \<Rightarrow> (Inl e, db')
           | Inr query \<Rightarrow>
               (case pool db' query None of
                  (Inl e, db'') \<Rightarrow> (Inl e, db'')
                | (Inr res, db'') \<Rightarrow>
                    if rowCount res \<noteq> 1
                    then (Inl (NoDataPointFound dataPointId), db'')
                    else (Inr res, db''))))"

section \<open>Notions used to state the properties\<close>

text \<open>A list contains \<^verbatim>\<open>null\<close>, as an element or inside a nested list at any depth.\<close>

fun containsNull :: "jsval list \<Rightarrow> bool" where
  "containsNull [] = False"
| "containsNull (JNull # xs) = True"
| "containsNull (JArr ys # xs) = (containsNull ys \<or> containsNull xs)"
| "containsNull (x # xs) = containsNull xs"

text \<open>
  A list contains, as an element or inside a nested list at any depth, an object with an
  own property \<^verbatim>\<open>toString\<close>: an element the array conversion cannot render.
\<close>

fun containsUnprintable :: "jsval list \<Rightarrow> bool" where
  "containsUnprintable [] = False"
| "containsUnprintable (JObj obj # xs) =
     (''toString'' \<in> set (map fst obj) \<or> containsUnprintable xs)"
| "containsUnprintable (JArr ys # xs) = (containsUnprintable ys \<or> containsUnprintable xs)"
| "containsUnprintable (x # xs) = containsUnprintable xs"

text \<open>
  The parameter placeholders of a piece of SQL text: the numbers \<open>n\<close> of its tokens
  \<^verbatim>\<open>$n\<close>, a dollar sign followed by decimal digits, in the order they occur. The
  scanner is idle, has just read a dollar sign, or is reading the digits of a number.
\<close>

datatype scanState = Idle | Dollar | Number nat

definition isDigit :: "char \<Rightarrow> bool" where
  "isDigit c = (c \<in> set ''0123456789'')"

definition digitValue :: "char \<Rightarrow> nat" where
  "digitValue c = length (takeWhile (\<lambda>d. d \<noteq> c) ''0123456789'')"

definition afterChar :: "char \<Rightarrow> scanState" where
  "afterChar c = (if c = CHR ''$'' then Dollar else Idle)"

fun scanPlaceholders :: "scanState \<Rightarrow> string \<Rightarrow> nat list" where
  "scanPlaceholders st [] = (case st of Number n \<Rightarrow> [n] | _ \<Rightarrow> [])"
| "scanPlaceholders st (c # cs) =
     (case st of
        Number n \<Rightarrow>
          if isDigit c then scanPlaceholders (Number (10 * n + digitValue c)) cs
          else n # scanPlaceholders (afterChar c) cs
      | Dollar \<Rightarrow>
          if isDigit c then scanPlaceholders (Number (digitValue c)) cs
          else scanPlaceholders (afterChar c) cs
      | Idle \<Rightarrow> scanPlaceholders (afterChar c) cs)"

definition placeholders :: "string \<Rightarrow> nat list" where
  "placeholders s = scanPlaceholders Idle s"

text \<open>What the scanner emits when the text ends in a state, and the number a run of digits denotes.\<close>

definition flush :: "scanState \<Rightarrow> nat list" where
  "flush st = (case st of Number n \<Rightarrow> [n] | _ \<Rightarrow> [])"

definition readDigits :: "nat \<Rightarrow> string \<Rightarrow> nat" where
  "readDigits n ds = foldl (\<lambda>a c. 10 * a + digitValue c) n ds"

text \<open>
  A property \<^verbatim>\<open>location\<close> whose value is not a GeoJSON Point: the encoder treats it as
  a longitude/latitude pair.
\<close>

definition lonLatLocation :: "string \<times> jsval \<Rightarrow> bool" where
  "lonLatLocation kv = (fst kv = ''location'' \<and> getMember (snd kv) ''type'' \<noteq> Inr (JStr ''Point''))"

text \<open>
  The parameter slots the properties of an object take: one each, and one more for a
  longitude/latitude location.
\<close>

definition slotCount :: "jsobject \<Rightarrow> nat" where
  "slotCount obj = length obj + length (filter lonLatLocation obj)"

text \<open>
  A pool for the examples: it knows the survey \<^verbatim>\<open>s1\<close>, whose table is
  \<^verbatim>\<open>data_collection.study_1\<close>; the state lists the ids of the data points in that table,
  and deleting \<^verbatim>\<open>d1\<close> removes it. Any other statement is rejected.
\<close>

definition examplePool :: "string list pool" where
  "examplePool db text vals =
     (if text = tablenameQuery ''s1'' then
        (Inr \<lparr> rowCount = 1, rows = [[(''tablename'', JStr ''data_collection.study_1'')]] \<rparr>, db)
      else if Inr text = deleteQuery (JStr ''data_collection.study_1'') (JStr ''d1'') then
        (Inr \<lparr> rowCount = count_list db ''d1'', rows = [] \<rparr>, filter (\<lambda>x. x \<noteq> ''d1'') db)
      else (Inl (DatabaseError text), db))"

text \<open>
  A CREATE TABLE statement laid out as the module's templates are: one column definition,
  a name and its type, to a line. \<open>tableColumns\<close> lists the column definitions of the
  two templates, by the set the table is created for.
\<close>

definition createTable :: "string \<Rightarrow> (string \<times> string) list \<Rightarrow> string" where
  "createTable tablename cols =
     ''CREATE TABLE '' @ tablename @ '' ('' @ newline @ spaces 20 @
     join ('','' @ newline @ spaces 20) (map (\<lambda>(name, ty). name @ '' '' @ ty) cols) @
     newline @ spaces 20 @ '')''"

definition tableColumns :: "string list \<Rightarrow> (string \<times> string) list" where
  "tableColumns asSet =
     (if asSet = genderLocationArray then
        [(''survey_id'', ''UUID references data_collection.survey(survey_id) NOT NULL''),
         (''data_point_id'', ''UUID PRIMARY KEY NOT NULL''),
         (''gender'', ''data_collection.gender''),
         (''creation_date'', ''timestamptz''),
         (''last_updated'', ''timestamptz''),
         (''location'', ''geometry NOT NULL'')]
      else
        [(''survey_id'', ''UUID references data_collection.survey(survey_id) NOT NULL''),
         (''data_point_id'', ''UUID PRIMARY KEY NOT NULL''),
         (''gender'', ''data_collection.gender''),
         (''age'', ''varchar(64)''),
         (''mode'', ''data_collection.mode''),
         (''posture'', ''data_collection.posture''),
         (''activities'', ''data_collection.activities[]''),
         (''groups'', ''data_collection.groups''),
         (''object'', ''data_collection.object''),
         (''location'', ''geometry NOT NULL''),
         (''creation_date'', ''timestamptz''),
         (''last_updated'', ''timestamptz''),
         (''note'', ''text'')])"

section \<open>Auxiliary facts\<close>

lemma allGehlFields_eq: "allGehlFields = allGehlFieldsArray"
  by (simp add: allGehlFields_def allGehlFieldsArray_def newSet_def setAdd_def)

lemma genderLocation_eq: "genderLocation = genderLocationArray"
  by (simp add: genderLocation_def genderLocationArray_def newSet_def setAdd_def)

lemma reduce_fails:
  assumes "x \<in> set xs" and "\<And>a. isl (f a x)"
  shows "isl (reduce f xs acc)"
  using assms(1)
proof (induction xs arbitrary: acc)
  case Nil
  then show ?case by simp
next
  case (Cons y ys)
  show ?case
  proof (cases "f acc y")
    case (Inl e)
    then show ?thesis by simp
  next
    case (Inr acc')
    with assms(2)[of acc] have "x \<noteq> y" by auto
    with Cons.prems have "x \<in> set ys" by simp
    with Cons.IH Inr show ?thesis by simp
  qed
qed

lemma arrayElements_isl:
  "isl (arrayElements xs) = (containsNull xs \<or> containsUnprintable xs)"
  by (induction xs rule: containsNull.induct)
     (auto simp: objectToString_def split: sum.splits)

lemma setProp_fresh: "k \<notin> fst ` set obj \<Longrightarrow> setProp obj k v = obj @ [(k, v)]"
  by (induction obj) auto

lemma dataPointForPostgres_eq:
  "dataPointForPostgres surveyId dataPoint =
     deleteNonGehlFields dataPoint @
       [(''survey_id'', JStr surveyId), (''data_point_id'', getProp dataPoint ''data_point_id'')]"
proof -
  have keys: "fst ` set (deleteNonGehlFields dataPoint) \<subseteq> set allGehlFieldsArray"
    by (auto simp: deleteNonGehlFields_def allGehlFields_eq)
  have a: "''survey_id'' \<notin> fst ` set (deleteNonGehlFields dataPoint)"
    using keys by (auto simp: allGehlFieldsArray_def)
  have b: "''data_point_id'' \<notin> fst ` set (deleteNonGehlFields dataPoint @ [(''survey_id'', JStr surveyId)])"
    using keys by (auto simp: allGehlFieldsArray_def)
  show ?thesis
    unfolding dataPointForPostgres_def Let_def
    by (simp add: setProp_fresh[OF a] setProp_fresh[OF b])
qed

lemma step_fails:
  "processDataPointToValue k v = Inl e \<Longrightarrow> isl (processDataPointToPreparedStatement acc (k, v))"
  by (auto simp: processDataPointToPreparedStatement_def split: sum.splits prod.splits)

lemma member_dataPointForPostgres:
  "(k, v) \<in> set dataPoint \<Longrightarrow> k \<in> set allGehlFieldsArray \<Longrightarrow> v \<noteq> JNull \<Longrightarrow>
     (k, v) \<in> set (dataPointForPostgres surveyId dataPoint)"
  by (simp add: dataPointForPostgres_eq deleteNonGehlFields_def allGehlFields_eq)

lemma transform_isl:
  "isl (transformToPostgresInsert surveyId dataPoint) =
     isl (processKeyAndValues (dataPointForPostgres surveyId dataPoint))"
  by (simp add: transformToPostgresInsert_def split: sum.splits)

lemma encode_fails:
  assumes "(k, v) \<in> set dataPoint" and "k \<in> set allGehlFieldsArray" and "v \<noteq> JNull"
    and "processDataPointToValue k v = Inl e"
  shows "isl (transformToPostgresInsert surveyId dataPoint)"
  unfolding transform_isl processKeyAndValues_def
  by (rule reduce_fails[OF member_dataPointForPostgres[OF assms(1-3)]])
     (rule step_fails[OF assms(4)])

lemma deleteNonGehlFields_setProp:
  "k \<notin> set allGehlFields \<Longrightarrow> deleteNonGehlFields (setProp obj k v) = deleteNonGehlFields obj"
  by (induction obj k v rule: setProp.induct) (simp_all add: deleteNonGehlFields_def)

lemma getProp_setProp_other:
  "k' \<noteq> k \<Longrightarrow> getProp (setProp obj k v) k' = getProp obj k'"
  by (induction obj k v rule: setProp.induct) (simp_all add: getProp_def)

lemma transform_setProp_survey_id:
  "transformToPostgresInsert surveyId (setProp dataPoint ''survey_id'' v) =
     transformToPostgresInsert surveyId dataPoint"
proof -
  have "''survey_id'' \<notin> set allGehlFields"
    by (simp add: allGehlFields_eq allGehlFieldsArray_def)
  then have "dataPointForPostgres surveyId (setProp dataPoint ''survey_id'' v) =
      dataPointForPostgres surveyId dataPoint"
    by (simp add: dataPointForPostgres_eq deleteNonGehlFields_setProp getProp_setProp_other)
  then show ?thesis by (simp add: transformToPostgresInsert_def)
qed

lemma addDataPoint_fails:
  "isl (transformToPostgresInsert surveyId dataPoint) \<Longrightarrow>
     isl (fst (addDataPointToSurveyNoStudyId pool surveyId dataPoint db))"
  by (auto simp: addDataPointToSurveyNoStudyId_def transform_setProp_survey_id
           split: prod.splits sum.splits)

lemma value_width:
  "processDataPointToValue k v = Inr v' \<Longrightarrow>
     length (wrapInArray v') = (if lonLatLocation (k, v) then 2 else 1)"
  by (auto simp: processDataPointToValue_def wrapInArray_def lonLatLocation_def Let_def
           split: if_splits sum.splits option.splits)

lemma binding_width:
  "convertKeyToParamterBinding i k v = Inr (i', b) \<Longrightarrow>
     i' = i + (if lonLatLocation (k, v) then 2 else 1)"
  by (auto simp: convertKeyToParamterBinding_def lonLatLocation_def
           split: if_splits sum.splits)


lemma step_counts:
  assumes "processDataPointToPreparedStatement acc kv = Inr acc'"
  shows "columns acc' = columns acc @ [fst kv]"
    and "length (parameterBindings acc') = length (parameterBindings acc) + 1"
    and "index acc' = index acc + (if lonLatLocation kv then 2 else 1)"
    and "length (values' acc') = length (values' acc) + (if lonLatLocation kv then 2 else 1)"
proof -
  obtain k v where kv: "kv = (k, v)" by (cases kv)
  from assms obtain i' b v' where
    b: "convertKeyToParamterBinding (index acc) k v = Inr (i', b)" and
    v: "processDataPointToValue k v = Inr v'" and
    acc': "acc' = \<lparr> columns = columns acc @ [k], values' = values' acc @ wrapInArray v',
                    parameterBindings = parameterBindings acc @ [b], index = i' \<rparr>"
    by (auto simp: processDataPointToPreparedStatement_def kv split: sum.splits prod.splits)
  note bw = binding_width[OF b] and vw = value_width[OF v]
  show "columns acc' = columns acc @ [fst kv]" by (simp add: acc' kv)
  show "length (parameterBindings acc') = length (parameterBindings acc) + 1" by (simp add: acc')
  show "index acc' = index acc + (if lonLatLocation kv then 2 else 1)"
    using bw by (simp add: acc' kv)
  show "length (values' acc') = length (values' acc) + (if lonLatLocation kv then 2 else 1)"
    using vw by (simp add: acc' kv)
qed

lemma reduce_counts:
  assumes "reduce processDataPointToPreparedStatement obj acc = Inr acc'"
  shows "columns acc' = columns acc @ map fst obj \<and>
         length (parameterBindings acc') = length (parameterBindings acc) + length obj \<and>
         index acc' = index acc + slotCount obj \<and>
         length (values' acc') = length (values' acc) + slotCount obj"
  using assms
proof (induction obj arbitrary: acc)
  case Nil
  then show ?case by (simp add: slotCount_def)
next
  case (Cons kv obj)
  from Cons.prems obtain acc1 where
    s: "processDataPointToPreparedStatement acc kv = Inr acc1" and
    r: "reduce processDataPointToPreparedStatement obj acc1 = Inr acc'"
    by (auto split: sum.splits)
  have w: "slotCount (kv # obj) = (if lonLatLocation kv then 2 else 1) + slotCount obj"
    by (simp add: slotCount_def)
  show ?case
    using Cons.IH[OF r] step_counts[OF s] by (simp add: w)
qed

lemma encode_counts:
  assumes "processKeyAndValues (dataPointForPostgres surveyId dataPoint) = Inr acc"
  shows "columns acc = map fst (dataPointForPostgres surveyId dataPoint)"
    and "length (parameterBindings acc) = length (columns acc)"
    and "index acc = length (values' acc) + 1"
    and "length (values' acc) = slotCount (dataPointForPostgres surveyId dataPoint)"
  using reduce_counts[OF assms[unfolded processKeyAndValues_def]]
  by simp_all

lemma columns_known:
  "set (map fst (dataPointForPostgres surveyId dataPoint)) \<subseteq> set validDataPointProperties"
  by (auto simp: dataPointForPostgres_eq deleteNonGehlFields_def allGehlFields_eq
                 allGehlFieldsArray_def validDataPointProperties_def)

lemma addDataPoint_issues:
  assumes "getTablenameForSurveyId pool surveyId db = (Inr tablename, db')"
    and "transformToPostgresInsert surveyId dataPoint = Inr (query, vals)"
    and "toString tablename = Inr name"
  shows "addDataPointToSurveyNoStudyId pool surveyId dataPoint db =
           pool db' (''INSERT INTO '' @ name @ newline @ spaces 19 @ query) (Some vals)"
  using assms
  by (simp add: addDataPointToSurveyNoStudyId_def transform_setProp_survey_id insertQuery_def)

lemma getProp_filter_other:
  "(\<And>v. P (k, v)) \<Longrightarrow> getProp (filter P obj) k = getProp obj k"
  by (induction obj) (auto simp: getProp_def)

lemma dataPointForPostgres_unknown_key:
  assumes "k \<notin> set validDataPointProperties"
  shows "dataPointForPostgres surveyId (filter (\<lambda>kv. fst kv \<noteq> k) dataPoint) =
           dataPointForPostgres surveyId dataPoint"
proof -
  from assms have k: "k \<notin> set allGehlFields" "k \<noteq> ''data_point_id''"
    by (auto simp: validDataPointProperties_def allGehlFields_eq allGehlFieldsArray_def)
  have "deleteNonGehlFields (filter (\<lambda>kv. fst kv \<noteq> k) dataPoint) = deleteNonGehlFields dataPoint"
    unfolding deleteNonGehlFields_def filter_filter using k(1)
    by (intro filter_cong) auto
  moreover have "getProp (filter (\<lambda>kv. fst kv \<noteq> k) dataPoint) ''data_point_id'' =
      getProp dataPoint ''data_point_id''"
    using k(2) by (intro getProp_filter_other) simp
  ultimately show ?thesis by (simp add: dataPointForPostgres_eq)
qed

lemma dataPointForPostgres_null_field:
  assumes "k \<in> set allGehlFieldsArray"
  shows "dataPointForPostgres surveyId (filter (\<lambda>kv. kv \<noteq> (k, JNull)) dataPoint) =
           dataPointForPostgres surveyId dataPoint"
proof -
  from assms have k: "k \<noteq> ''data_point_id''"
    by (auto simp: allGehlFieldsArray_def)
  have "deleteNonGehlFields (filter (\<lambda>kv. kv \<noteq> (k, JNull)) dataPoint) = deleteNonGehlFields dataPoint"
    unfolding deleteNonGehlFields_def filter_filter
    by (intro filter_cong) auto
  moreover have "getProp (filter (\<lambda>kv. kv \<noteq> (k, JNull)) dataPoint) ''data_point_id'' =
      getProp dataPoint ''data_point_id''"
    using k by (intro getProp_filter_other) simp
  ultimately show ?thesis by (simp add: dataPointForPostgres_eq)
qed

lemma addDataPoint_cong:
  "transformToPostgresInsert surveyId dataPoint = transformToPostgresInsert surveyId dataPoint' \<Longrightarrow>
     addDataPointToSurveyNoStudyId pool surveyId dataPoint db =
     addDataPointToSurveyNoStudyId pool surveyId dataPoint' db"
  by (simp add: addDataPointToSurveyNoStudyId_def transform_setProp_survey_id Let_def
           split: prod.splits sum.splits)

lemma set_foldl_setAdd: "set (foldl setAdd acc xs) = set acc \<union> set xs"
  by (induction xs arbitrary: acc) (auto simp: setAdd_def)

lemma set_newSet: "set (newSet xs) = set xs"
  by (simp add: newSet_def set_foldl_setAdd)

lemma join_Cons: "join sep (x # xs) = (if xs = [] then x else x @ sep @ join sep xs)"
  by (cases xs) simp_all

lemma join_nonempty: "x \<noteq> [] \<Longrightarrow> join sep (x # xs) \<noteq> []"
  by (simp add: join_Cons)

lemma takeWhile_join:
  "CHR '','' \<notin> set x \<Longrightarrow> takeWhile (\<lambda>c. c \<noteq> CHR '','') (join '','' (x # xs)) = x"
proof -
  assume x: "CHR '','' \<notin> set x"
  have "takeWhile (\<lambda>c. c \<noteq> CHR '','') (x @ rest) = x @ takeWhile (\<lambda>c. c \<noteq> CHR '','') rest" for rest
    using x by (intro takeWhile_append2) auto
  from this[of "[]"] this[of "'','' @ join '','' xs"] show ?thesis
    by (simp add: join_Cons)
qed

lemma join_comma_inj:
  assumes "\<forall>x\<in>set xs. x \<noteq> [] \<and> CHR '','' \<notin> set x"
    and "\<forall>y\<in>set ys. y \<noteq> [] \<and> CHR '','' \<notin> set y"
    and "join '','' xs = join '','' ys"
  shows "xs = ys"
  using assms
proof (induction xs arbitrary: ys)
  case Nil
  show ?case
  proof (cases ys)
    case Nil
    then show ?thesis by simp
  next
    case (Cons y ys')
    with Nil.prems(2) have "join '','' (y # ys') \<noteq> []"
      by (intro join_nonempty) simp
    with Nil.prems(3) Cons show ?thesis by simp
  qed
next
  case (Cons x xs)
  from Cons.prems(1) have x: "x \<noteq> []" "CHR '','' \<notin> set x" by simp_all
  show ?case
  proof (cases ys)
    case Nil
    with Cons.prems(3) join_nonempty[OF x(1), of "'',''" xs] show ?thesis by simp
  next
    case ys: (Cons y ys')
    from Cons.prems(2) ys have y: "y \<noteq> []" "CHR '','' \<notin> set y" by simp_all
    have "takeWhile (\<lambda>c. c \<noteq> CHR '','') (join '','' (x # xs)) =
          takeWhile (\<lambda>c. c \<noteq> CHR '','') (join '','' (y # ys'))"
      using Cons.prems(3) ys by simp
    then have xy: "x = y" by (simp only: takeWhile_join[OF x(2)] takeWhile_join[OF y(2)])
    have rest: "xs = ys'"
    proof (cases "xs = [] \<or> ys' = []")
      case True
      then show ?thesis
        using Cons.prems(3) ys xy by (auto simp: join_Cons split: if_splits)
    next
      case False
      with Cons.prems(3) ys xy have j: "join '','' xs = join '','' ys'"
        by (simp add: join_Cons)
      from Cons.prems(1) have a: "\<forall>x\<in>set xs. x \<noteq> [] \<and> CHR '','' \<notin> set x" by simp
      from Cons.prems(2) ys have b: "\<forall>y\<in>set ys'. y \<noteq> [] \<and> CHR '','' \<notin> set y" by simp
      show ?thesis by (rule Cons.IH[OF a b j])
    qed
    with xy ys show ?thesis by simp
  qed
qed

lemma gehl_field_names:
  "x \<in> set allGehlFieldsArray \<Longrightarrow> x \<noteq> [] \<and> CHR '','' \<notin> set x"
  by (auto simp: allGehlFieldsArray_def)

lemma setString_gehl_inj:
  assumes "set s \<subseteq> set allGehlFieldsArray" and "set t \<subseteq> set allGehlFieldsArray"
    and "setString s = setString t"
  shows "s = t"
  using assms gehl_field_names unfolding setString_def
  by (intro join_comma_inj) blast+

lemma setString_genderLocation_iff:
  fixes fields :: "string list"
  assumes "set fields \<subseteq> set allGehlFieldsArray"
  shows "(setString (newSet fields) = setString genderLocation) = (newSet fields = genderLocationArray)"
proof -
  have n: "set (newSet fields) \<subseteq> set allGehlFieldsArray"
    using assms by (simp add: set_newSet)
  have g: "set genderLocationArray \<subseteq> set allGehlFieldsArray"
    by (simp add: genderLocationArray_def allGehlFieldsArray_def)
  show ?thesis
    using setString_gehl_inj[OF n g] by (auto simp: genderLocation_eq)
qed

lemma setString_allGehlFields_iff:
  fixes fields :: "string list"
  assumes "set fields \<subseteq> set allGehlFieldsArray"
  shows "(setString (newSet fields) = setString allGehlFields) = (newSet fields = allGehlFieldsArray)"
proof -
  have n: "set (newSet fields) \<subseteq> set allGehlFieldsArray"
    using assms by (simp add: set_newSet)
  show ?thesis
    using setString_gehl_inj[OF n subset_refl] by (auto simp: allGehlFields_eq)
qed

lemma provisioning_supported_iff:
  fixes fields :: "string list"
  assumes "set fields \<subseteq> set allGehlFieldsArray"
  shows "(\<exists>ddl. createNewTableFromGehlFields study tablename fields = Inr ddl) =
         (newSet fields = genderLocationArray \<or> newSet fields = allGehlFieldsArray)"
  by (simp only: createNewTableFromGehlFields_def Let_def
        setString_genderLocation_iff[OF assms] setString_allGehlFields_iff[OF assms]) auto

lemma provisioning_only_supported_sets:
  fixes fields :: "string list"
  assumes "set fields \<subseteq> set allGehlFieldsArray"
    and "createNewTableFromGehlFields study tablename fields = Inr ddl"
  shows "set fields = {''gender'', ''location''} \<or> set fields = set allGehlFieldsArray"
proof -
  from assms(2) have "\<exists>ddl. createNewTableFromGehlFields study tablename fields = Inr ddl" by blast
  then have "newSet fields = genderLocationArray \<or> newSet fields = allGehlFieldsArray"
    by (simp only: provisioning_supported_iff[OF assms(1)])
  then have "set (newSet fields) = set genderLocationArray \<or> set (newSet fields) = set allGehlFieldsArray"
    by auto
  then show ?thesis by (simp add: set_newSet genderLocationArray_def)
qed

lemma createTable_genderLocation:
  "createTable tablename (tableColumns genderLocationArray) =
     ''CREATE TABLE '' @ tablename @ '' ('' @ newline @ spaces 20 @
     ''survey_id UUID references data_collection.survey(survey_id) NOT NULL,'' @ newline @ spaces 20 @
     ''data_point_id UUID PRIMARY KEY NOT NULL,'' @ newline @ spaces 20 @
     ''gender data_collection.gender,'' @ newline @ spaces 20 @
     ''creation_date timestamptz,'' @ newline @ spaces 20 @
     ''last_updated timestamptz,'' @ newline @ spaces 20 @
     ''location geometry NOT NULL'' @ newline @ spaces 20 @
     '')''"
  by (simp add: createTable_def tableColumns_def)

lemma createTable_allGehlFields:
  "createTable tablename (tableColumns allGehlFieldsArray) =
     ''CREATE TABLE '' @ tablename @ '' ('' @ newline @ spaces 20 @
     ''survey_id UUID references data_collection.survey(survey_id) NOT NULL,'' @ newline @ spaces 20 @
     ''data_point_id UUID PRIMARY KEY NOT NULL,'' @ newline @ spaces 20 @
     ''gender data_collection.gender,'' @ newline @ spaces 20 @
     ''age varchar(64),'' @ newline @ spaces 20 @
     ''mode data_collection.mode,'' @ newline @ spaces 20 @
     ''posture data_collection.posture,'' @ newline @ spaces 20 @
     ''activities data_collection.activities[],'' @ newline @ spaces 20 @
     ''groups data_collection.groups,'' @ newline @ spaces 20 @
     ''object data_collection.object,'' @ newline @ spaces 20 @
     ''location geometry NOT NULL,'' @ newline @ spaces 20 @
     ''creation_date timestamptz,'' @ newline @ spaces 20 @
     ''last_updated timestamptz,'' @ newline @ spaces 20 @
     ''note text'' @ newline @ spaces 20 @
     '')''"
  by (simp add: createTable_def tableColumns_def allGehlFieldsArray_def genderLocationArray_def)

lemma tableColumns_genderLocation_names:
  "map fst (tableColumns genderLocationArray) =
     [''survey_id'', ''data_point_id'', ''gender'', ''creation_date'', ''last_updated'', ''location'']"
  by (simp add: tableColumns_def)

lemma allGehl_not_genderLocation: "allGehlFieldsArray \<noteq> genderLocationArray"
  by (simp add: allGehlFieldsArray_def genderLocationArray_def)

lemma tableColumns_allGehlFields_names:
  "map fst (tableColumns allGehlFieldsArray) =
     [''survey_id'', ''data_point_id'', ''gender'', ''age'', ''mode'', ''posture'', ''activities'',
      ''groups'', ''object'', ''location'', ''creation_date'', ''last_updated'', ''note'']"
  by (simp add: tableColumns_def allGehl_not_genderLocation)

lemma names_genderLocation:
  "set [''survey_id'', ''data_point_id'', ''gender'', ''creation_date'', ''last_updated'', ''location''] =
     {''survey_id'', ''data_point_id'', ''creation_date'', ''last_updated''} \<union> set genderLocationArray"
  unfolding genderLocationArray_def by (simp add: insert_commute)

lemma names_allGehlFields:
  "set [''survey_id'', ''data_point_id'', ''gender'', ''age'', ''mode'', ''posture'', ''activities'',
      ''groups'', ''object'', ''location'', ''creation_date'', ''last_updated'', ''note''] =
     {''survey_id'', ''data_point_id'', ''creation_date'', ''last_updated''} \<union> set allGehlFieldsArray"
  unfolding allGehlFieldsArray_def by (simp add: insert_commute)

lemma distinct_names:
  "distinct [''survey_id'', ''data_point_id'', ''gender'', ''creation_date'', ''last_updated'', ''location'']"
  "distinct [''survey_id'', ''data_point_id'', ''gender'', ''age'', ''mode'', ''posture'', ''activities'',
      ''groups'', ''object'', ''location'', ''creation_date'', ''last_updated'', ''note'']"
  by simp_all

lemma create_genderLocation:
  fixes fields :: "string list"
  assumes "set fields \<subseteq> set allGehlFieldsArray" and "newSet fields = genderLocationArray"
  shows "createNewTableFromGehlFields study tablename fields =
           Inr (createTable tablename (tableColumns genderLocationArray))"
proof -
  have "setString (newSet fields) = setString genderLocation"
    by (rule iffD2[OF setString_genderLocation_iff[OF assms(1)] assms(2)])
  then have "(setString (newSet fields) = setString genderLocation) = True" by simp
  then show ?thesis
    by (simp only: createNewTableFromGehlFields_def Let_def if_True createTable_genderLocation)
qed

lemma create_allGehlFields:
  fixes fields :: "string list"
  assumes "set fields \<subseteq> set allGehlFieldsArray" and "newSet fields = allGehlFieldsArray"
  shows "createNewTableFromGehlFields study tablename fields =
           Inr (createTable tablename (tableColumns allGehlFieldsArray))"
proof -
  have a: "setString (newSet fields) = setString allGehlFields"
    by (rule iffD2[OF setString_allGehlFields_iff[OF assms(1)] assms(2)])
  have b: "setString (newSet fields) \<noteq> setString genderLocation"
    using iffD1[OF setString_genderLocation_iff[OF assms(1)]] assms(2) allGehl_not_genderLocation
    by auto
  from b have c: "(setString (newSet fields) = setString genderLocation) = False" by simp
  show ?thesis
    by (simp only: createNewTableFromGehlFields_def Let_def c if_False a[THEN eqTrueI] if_True
          createTable_allGehlFields)
qed

lemma scan_Nil: "scanPlaceholders st [] = flush st"
  by (simp add: flush_def)

lemma scan_nondigit:
  "\<not> isDigit c \<Longrightarrow> scanPlaceholders st (c # cs) = flush st @ scanPlaceholders (afterChar c) cs"
  by (cases st) (simp_all add: flush_def)

lemma scan_break:
  "b = [] \<or> \<not> isDigit (hd b) \<Longrightarrow> scanPlaceholders st b = flush st @ scanPlaceholders Idle b"
  by (cases b; cases st) (simp_all add: flush_def)

lemma scan_append:
  "b = [] \<or> \<not> isDigit (hd b) \<Longrightarrow>
     scanPlaceholders st (a @ b) = scanPlaceholders st a @ scanPlaceholders Idle b"
proof (induction a arbitrary: st)
  case Nil
  then show ?case using scan_break[of b st] by (simp add: flush_def)
next
  case (Cons c a)
  then show ?case by (cases st) simp_all
qed

lemma placeholders_append:
  "b = [] \<or> \<not> isDigit (hd b) \<Longrightarrow> placeholders (a @ b) = placeholders a @ placeholders b"
  by (simp add: placeholders_def scan_append)

lemma scan_no_dollar:
  "CHR ''$'' \<notin> set a \<Longrightarrow> scanPlaceholders Idle (a @ b) = scanPlaceholders Idle b"
  by (induction a) (auto simp: afterChar_def)

lemma placeholders_no_dollar:
  "CHR ''$'' \<notin> set a \<Longrightarrow> placeholders (a @ b) = placeholders b"
  by (simp add: placeholders_def scan_no_dollar)


lemma scan_digits:
  "\<forall>c\<in>set ds. isDigit c \<Longrightarrow>
     scanPlaceholders (Number n) (ds @ rest) = scanPlaceholders (Number (readDigits n ds)) rest"
  by (induction ds arbitrary: n) (simp_all add: readDigits_def)

lemma digitChar_digit: "isDigit (digitChar d)"
  by (simp add: digitChar_def isDigit_def)

lemma digitChar_value: "d < 10 \<Longrightarrow> digitValue (digitChar d) = d"
  by (simp add: digitChar_def digitValue_def)

lemma showNat_digits: "\<forall>c\<in>set (showNat n). isDigit c"
proof (induction n rule: showNat.induct)
  case (1 n)
  then show ?case by (subst showNat.simps) (simp add: digitChar_digit)
qed

lemma showNat_value: "readDigits 0 (showNat n) = n"
proof (induction n rule: showNat.induct)
  case (1 n)
  show ?case
  proof (cases "n < 10")
    case True
    then show ?thesis
      by (subst showNat.simps) (simp add: readDigits_def digitChar_value)
  next
    case False
    with 1 have "readDigits 0 (showNat (n div 10)) = n div 10" by simp
    with False show ?thesis
      by (subst showNat.simps) (simp add: readDigits_def digitChar_value)
  qed
qed

lemma showNat_nonempty: "showNat n \<noteq> []"
  by (subst showNat.simps) simp

lemma scan_dollar_number:
  "scanPlaceholders Dollar (showNat n @ rest) = scanPlaceholders (Number n) rest"
proof -
  obtain d ds where s: "showNat n = d # ds"
    using showNat_nonempty[of n] by (cases "showNat n") auto
  from showNat_digits[of n] s have d: "isDigit d" and ds: "\<forall>c\<in>set ds. isDigit c" by auto
  have "readDigits (digitValue d) ds = n"
    using showNat_value[of n] by (simp add: s readDigits_def)
  then show ?thesis
    using d scan_digits[OF ds, of "digitValue d" rest] by (simp add: s)
qed

lemma placeholders_dollar:
  "rest = [] \<or> \<not> isDigit (hd rest) \<Longrightarrow>
     placeholders (''$'' @ showNat n @ rest) = n # placeholders rest"
  using scan_break[of rest "Number n"]
  by (simp add: placeholders_def afterChar_def scan_dollar_number flush_def)

lemma placeholders_Nil: "placeholders [] = []"
  by (simp add: placeholders_def)

lemma not_digit_simps:
  "\<not> isDigit (CHR ''$'')" "\<not> isDigit (CHR '','')" "\<not> isDigit (CHR '')'')"
  by (simp_all add: isDigit_def)

lemma placeholders_plain: "placeholders (''$'' @ showNat i) = [i]"
  using placeholders_dollar[of "[]" i] by (simp add: placeholders_Nil)

lemma placeholders_geojson:
  "placeholders (''ST_GeomFromGeoJSON($'' @ showNat i @ '')'') = [i]"
proof -
  have e: "''ST_GeomFromGeoJSON($'' @ showNat i @ '')'' =
      ''ST_GeomFromGeoJSON('' @ (''$'' @ showNat i @ '')'')" by simp
  have "placeholders (''$'' @ showNat i @ '')'') = i # placeholders '')''"
    by (rule placeholders_dollar) (simp add: isDigit_def)
  moreover have "placeholders '')'' = []"
    by (simp add: placeholders_def afterChar_def)
  ultimately show ?thesis
    unfolding e by (subst placeholders_no_dollar) simp_all
qed

lemma placeholders_text:
  "placeholders (''ST_GeomFromText($'' @ showNat i @ '', $'' @ showNat j @ '')'') = [i, j]"
proof -
  have e: "''ST_GeomFromText($'' @ showNat i @ '', $'' @ showNat j @ '')'' =
      ''ST_GeomFromText('' @ (''$'' @ showNat i @ ('', '' @ (''$'' @ showNat j @ '')'')))" by simp
  have a: "placeholders (''$'' @ showNat i @ ('', '' @ (''$'' @ showNat j @ '')''))) =
      i # placeholders ('', '' @ (''$'' @ showNat j @ '')''))"
    by (rule placeholders_dollar) (simp add: isDigit_def)
  have b: "placeholders ('', '' @ (''$'' @ showNat j @ '')'')) = placeholders (''$'' @ showNat j @ '')'')"
    by (rule placeholders_no_dollar) simp
  have c: "placeholders (''$'' @ showNat j @ '')'') = j # placeholders '')''"
    by (rule placeholders_dollar) (simp add: isDigit_def)
  have d: "placeholders '')'' = []"
    by (simp add: placeholders_def afterChar_def)
  have "placeholders (''ST_GeomFromText('' @ (''$'' @ showNat i @ ('', '' @ (''$'' @ showNat j @ '')'')))) =
      placeholders (''$'' @ showNat i @ ('', '' @ (''$'' @ showNat j @ '')'')))"
    by (rule placeholders_no_dollar) simp
  then show ?thesis
    unfolding e by (simp only: a b c d)
qed

lemma binding_placeholders:
  "convertKeyToParamterBinding i k v = Inr (i', b) \<Longrightarrow> placeholders b = [i..<i']"
  by (auto simp: convertKeyToParamterBinding_def placeholders_plain placeholders_geojson
        placeholders_text upt_conv_Cons
        simp del: append.simps split: if_splits sum.splits)

lemma placeholders_join:
  "placeholders (join '', '' bs) = concat (map placeholders bs)"
proof (induction "'', ''" bs rule: join.induct)
  case 1
  show ?case by (simp add: placeholders_Nil)
next
  case (2 x)
  show ?case by simp
next
  case (3 x y ys)
  have "placeholders (x @ ('', '' @ join '', '' (y # ys))) =
      placeholders x @ placeholders ('', '' @ join '', '' (y # ys))"
    by (rule placeholders_append) (simp add: isDigit_def)
  moreover have "placeholders ('', '' @ join '', '' (y # ys)) = placeholders (join '', '' (y # ys))"
    by (rule placeholders_no_dollar) simp
  ultimately show ?case using 3 by simp
qed

lemma step_placeholders:
  assumes "processDataPointToPreparedStatement acc kv = Inr acc'"
  shows "concat (map placeholders (parameterBindings acc')) =
           concat (map placeholders (parameterBindings acc)) @ [index acc..<index acc']"
proof -
  obtain k v where kv: "kv = (k, v)" by (cases kv)
  from assms obtain i' b v' where
    b: "convertKeyToParamterBinding (index acc) k v = Inr (i', b)" and
    acc': "acc' = \<lparr> columns = columns acc @ [k], values' = values' acc @ wrapInArray v',
                    parameterBindings = parameterBindings acc @ [b], index = i' \<rparr>"
    by (auto simp: processDataPointToPreparedStatement_def kv split: sum.splits prod.splits)
  show ?thesis
    using binding_placeholders[OF b] by (simp add: acc')
qed

lemma reduce_placeholders:
  assumes "reduce processDataPointToPreparedStatement obj acc = Inr acc'"
  shows "index acc \<le> index acc' \<and>
         concat (map placeholders (parameterBindings acc')) =
           concat (map placeholders (parameterBindings acc)) @ [index acc..<index acc']"
  using assms
proof (induction obj arbitrary: acc)
  case Nil
  then show ?case by simp
next
  case (Cons kv obj)
  from Cons.prems obtain acc1 where
    s: "processDataPointToPreparedStatement acc kv = Inr acc1" and
    r: "reduce processDataPointToPreparedStatement obj acc1 = Inr acc'"
    by (auto split: sum.splits)
  from step_counts(3)[OF s] have le: "index acc \<le> index acc1" by simp
  from Cons.IH[OF r] have le2: "index acc1 \<le> index acc'" and
    c: "concat (map placeholders (parameterBindings acc')) =
           concat (map placeholders (parameterBindings acc1)) @ [index acc1..<index acc']"
    by simp_all
  have "[index acc..<index acc1] @ [index acc1..<index acc'] = [index acc..<index acc']"
    using le le2 by (metis le_Suc_ex upt_add_eq_append)
  then show ?case
    using le le2 c step_placeholders[OF s] by simp
qed

lemma encode_placeholders:
  assumes "processKeyAndValues (dataPointForPostgres surveyId dataPoint) = Inr acc"
  shows "placeholders (join '', '' (parameterBindings acc)) = [1..<Suc (length (values' acc))]"
  using reduce_placeholders[OF assms[unfolded processKeyAndValues_def]] encode_counts(3)[OF assms]
  by (simp add: placeholders_join)

lemma no_dollar_join:
  "CHR ''$'' \<notin> set sep \<Longrightarrow> \<forall>x\<in>set xs. CHR ''$'' \<notin> set x \<Longrightarrow> CHR ''$'' \<notin> set (join sep xs)"
  by (induction sep xs rule: join.induct) simp_all

lemma known_no_dollar: "c \<in> set validDataPointProperties \<Longrightarrow> CHR ''$'' \<notin> set c"
  by (auto simp: validDataPointProperties_def)

lemma columns_no_dollar:
  "CHR ''$'' \<notin> set (join '', '' (map fst (dataPointForPostgres surveyId dataPoint)))"
proof (rule no_dollar_join)
  show "CHR ''$'' \<notin> set '', ''" by simp
  show "\<forall>x\<in>set (map fst (dataPointForPostgres surveyId dataPoint)). CHR ''$'' \<notin> set x"
    using columns_known known_no_dollar by blast
qed

lemma placeholders_upsert:
  assumes "CHR ''$'' \<notin> set cols"
  shows "placeholders (''('' @ cols @ '') VALUES ('' @ binds @ '')'' @ newline @ spaces 12 @
                ''ON CONFLICT(data_point_id)'' @ newline @ spaces 12 @
                ''DO UPDATE SET('' @ cols @ '') = ('' @ binds @ '')'')
         = placeholders binds @ placeholders binds"
proof -
  define pre where "pre = ''('' @ cols @ '') VALUES (''"
  define mid where "mid = '')'' @ newline @ spaces 12 @
                ''ON CONFLICT(data_point_id)'' @ newline @ spaces 12 @
                ''DO UPDATE SET('' @ cols @ '') = (''"
  have e: "''('' @ cols @ '') VALUES ('' @ binds @ '')'' @ newline @ spaces 12 @
                ''ON CONFLICT(data_point_id)'' @ newline @ spaces 12 @
                ''DO UPDATE SET('' @ cols @ '') = ('' @ binds @ '')'' =
           pre @ (binds @ (mid @ (binds @ '')'')))"
    by (simp add: pre_def mid_def)
  have p: "CHR ''$'' \<notin> set pre"
    using assms by (simp add: pre_def)
  have m: "CHR ''$'' \<notin> set mid"
    using assms by (simp add: mid_def newline_def spaces_def)
  have h: "mid @ (binds @ '')'') = [] \<or> \<not> isDigit (hd (mid @ (binds @ '')'')))"
    by (simp add: mid_def isDigit_def)
  have c: "placeholders '')'' = []"
    by (simp add: placeholders_def afterChar_def)
  have "placeholders (pre @ (binds @ (mid @ (binds @ '')'')))) =
      placeholders (binds @ (mid @ (binds @ '')'')))"
    by (rule placeholders_no_dollar[OF p])
  also have "\<dots> = placeholders binds @ placeholders (mid @ (binds @ '')''))"
    by (rule placeholders_append[OF h])
  also have "placeholders (mid @ (binds @ '')'')) = placeholders (binds @ '')'')"
    by (rule placeholders_no_dollar[OF m])
  also have "placeholders (binds @ '')'') = placeholders binds @ placeholders '')''"
    by (rule placeholders_append) (simp add: isDigit_def)
  finally show ?thesis
    unfolding e by (simp add: c)
qed










lemma arrayElements_errors:
  "arrayElements xs = Inl e \<Longrightarrow>
     (e = ArrayContainsNull \<and> containsNull xs) \<or> (e = TypeError \<and> containsUnprintable xs)"
  by (induction xs arbitrary: e rule: containsNull.induct)
     (auto simp: objectToString_def split: sum.splits if_splits)

lemma javascriptArray_isl:
  "isl (javascriptArrayToPostgresArray xs) = (containsNull xs \<or> containsUnprintable xs)"
  using arrayElements_isl[of xs] by (auto split: sum.splits)

lemma javascriptArray_errors:
  "javascriptArrayToPostgresArray xs = Inl e \<Longrightarrow>
     (e = ArrayContainsNull \<and> containsNull xs) \<or> (e = TypeError \<and> containsUnprintable xs)"
  using arrayElements_errors[of xs e] by (auto split: sum.splits)

lemma activities_isl:
  "isl (processDataPointToValue ''activities'' (JArr xs)) = isl (javascriptArrayToPostgresArray xs)"
  by (simp add: processDataPointToValue_def del: javascriptArrayToPostgresArray.simps
           split: sum.splits)

section \<open>The claims\<close>

text \<open>
  C1, as the code has it. A key outside the known field set is deleted before the encoding:
  \<^verbatim>\<open>transformToPostgresInsert\<close> and \<^verbatim>\<open>addDataPointToSurveyNoStudyId\<close> give exactly the
  result they give for the data point without that key, and the key is not among the
  columns of the statement. The unknown-field error is what \<^verbatim>\<open>processDataPointToValue\<close>
  raises when it is applied to such a key, which the deletion prevents.
\<close>

theorem unknown_key_dropped:
  "k \<notin> set validDataPointProperties \<longrightarrow>
     transformToPostgresInsert surveyId dataPoint =
       transformToPostgresInsert surveyId (filter (\<lambda>kv. fst kv \<noteq> k) dataPoint) \<and>
     addDataPointToSurveyNoStudyId pool surveyId dataPoint db =
       addDataPointToSurveyNoStudyId pool surveyId (filter (\<lambda>kv. fst kv \<noteq> k) dataPoint) db \<and>
     (\<forall>acc. processKeyAndValues (dataPointForPostgres surveyId dataPoint) = Inr acc \<longrightarrow>
        k \<notin> set (columns acc)) \<and>
     processDataPointToValue k v = Inl (UnexpectedKey k)"
proof
  assume k: "k \<notin> set validDataPointProperties"
  have t: "transformToPostgresInsert surveyId dataPoint =
       transformToPostgresInsert surveyId (filter (\<lambda>kv. fst kv \<noteq> k) dataPoint)"
    by (simp add: transformToPostgresInsert_def dataPointForPostgres_unknown_key[OF k])
  have c: "k \<notin> set (columns acc)"
    if "processKeyAndValues (dataPointForPostgres surveyId dataPoint) = Inr acc" for acc
    using encode_counts(1)[OF that] columns_known[of surveyId dataPoint] k by auto
  have u: "processDataPointToValue k v = Inl (UnexpectedKey k)"
    using k by (auto simp: processDataPointToValue_def validDataPointProperties_def)
  show "transformToPostgresInsert surveyId dataPoint =
       transformToPostgresInsert surveyId (filter (\<lambda>kv. fst kv \<noteq> k) dataPoint) \<and>
     addDataPointToSurveyNoStudyId pool surveyId dataPoint db =
       addDataPointToSurveyNoStudyId pool surveyId (filter (\<lambda>kv. fst kv \<noteq> k) dataPoint) db \<and>
     (\<forall>acc. processKeyAndValues (dataPointForPostgres surveyId dataPoint) = Inr acc \<longrightarrow>
        k \<notin> set (columns acc)) \<and>
     processDataPointToValue k v = Inl (UnexpectedKey k)"
  proof (intro conjI allI impI)
    show "transformToPostgresInsert surveyId dataPoint =
       transformToPostgresInsert surveyId (filter (\<lambda>kv. fst kv \<noteq> k) dataPoint)"
      by (rule t)
    show "addDataPointToSurveyNoStudyId pool surveyId dataPoint db =
       addDataPointToSurveyNoStudyId pool surveyId (filter (\<lambda>kv. fst kv \<noteq> k) dataPoint) db"
      by (rule addDataPoint_cong[OF t])
    show "processDataPointToValue k v = Inl (UnexpectedKey k)"
      by (rule u)
  next
    fix acc
    assume "processKeyAndValues (dataPointForPostgres surveyId dataPoint) = Inr acc"
    then show "k \<notin> set (columns acc)" by (rule c)
  qed
qed

theorem unknown_key_dropped_witness:
  "''foo'' \<notin> set validDataPointProperties \<and>
   transformToPostgresInsert ''s1'' [(''foo'', JStr ''bar''), (''data_point_id'', JStr ''d1'')] =
     transformToPostgresInsert ''s1'' [(''data_point_id'', JStr ''d1'')] \<and>
   processDataPointToValue ''foo'' (JStr ''bar'') = Inl (UnexpectedKey ''foo'')"
  using unknown_key_dropped [where k = "''foo''" and surveyId = "''s1''" and v = "JStr ''bar''"
      and dataPoint = "[(''foo'', JStr ''bar''), (''data_point_id'', JStr ''d1'')]"
      and pool = examplePool and db = "[]"]
  by (simp add: validDataPointProperties_def)

text \<open>
  C1 as stated fails: a data point with the unknown key \<^verbatim>\<open>foo\<close> is encoded, the key
  silently left out.
\<close>

theorem unknown_key_accepted:
  "''foo'' \<notin> set validDataPointProperties \<and>
   transformToPostgresInsert ''s1'' [(''foo'', JStr ''bar''), (''data_point_id'', JStr ''d1'')] =
     Inr (''(survey_id, data_point_id) VALUES ($1, $2)'' @ newline @ spaces 12 @
          ''ON CONFLICT(data_point_id)'' @ newline @ spaces 12 @
          ''DO UPDATE SET(survey_id, data_point_id) = ($1, $2)'',
          [JStr ''s1'', JStr ''d1''])"
  by code_simp

text \<open>
  C2. Table provisioning is to return a CREATE TABLE statement exactly when the set of the
  given field names is gender, location or the full set of eleven. The comparison goes
  through the text of the set in insertion order, so the same set of names given in another
  order is refused: here location, gender.
\<close>

theorem permuted_selection_rejected:
  "set [''location'', ''gender''] = set genderLocationArray \<and>
   createNewTableFromGehlFields () ''data_collection.study_1'' [''location'', ''gender''] =
     Inl (NoTablePossible [''location'', ''gender''])"
proof -
  have "createNewTableFromGehlFields () ''data_collection.study_1'' [''location'', ''gender''] =
     Inl (NoTablePossible [''location'', ''gender''])"
    by code_simp
  then show ?thesis by (auto simp: genderLocationArray_def)
qed

text \<open>
  C3. For every raw data point that encodes successfully, the parameter placeholders of the
  produced statement are exactly \<^verbatim>\<open>$1\<close> to \<^verbatim>\<open>$n\<close>, for \<open>n\<close> the length of the
  produced values array: their number equals that length, and the final placeholder index is
  that length plus one. The statement names each of them twice, in this order, once in the
  VALUES list and once in the DO UPDATE SET list. Each property contributes one placeholder
  and one value, except a location given as a longitude/latitude pair, which contributes two
  placeholders and two values.
\<close>

theorem placeholders_match_values:
  assumes "transformToPostgresInsert surveyId dataPoint = Inr (query, vals)"
  shows "placeholders query = [1..<Suc (length vals)] @ [1..<Suc (length vals)] \<and>
         set (placeholders query) = {1..length vals} \<and>
         card (set (placeholders query)) = length vals \<and>
         length vals =
           length (dataPointForPostgres surveyId dataPoint) +
           length (filter lonLatLocation (dataPointForPostgres surveyId dataPoint)) \<and>
         (\<exists>acc. processKeyAndValues (dataPointForPostgres surveyId dataPoint) = Inr acc \<and>
                vals = values' acc \<and> index acc = length vals + 1 \<and>
                length (columns acc) = length (dataPointForPostgres surveyId dataPoint) \<and>
                length (parameterBindings acc) = length (columns acc) \<and>
                placeholders (join '', '' (parameterBindings acc)) = [1..<Suc (length vals)])"
proof -
  from assms obtain acc where
    p: "processKeyAndValues (dataPointForPostgres surveyId dataPoint) = Inr acc" and
    q: "query = upsertQuery (columns acc) (parameterBindings acc)" and
    v: "vals = values' acc"
    by (auto simp: transformToPostgresInsert_def split: sum.splits)
  note c = encode_counts[OF p]
  note b = encode_placeholders[OF p]
  have nd: "CHR ''$'' \<notin> set (join '', '' (columns acc))"
    by (simp only: c(1) columns_no_dollar not_False_eq_True)
  have pq: "placeholders query = [1..<Suc (length vals)] @ [1..<Suc (length vals)]"
    unfolding q upsertQuery_def insert_statement_def
    using placeholders_upsert[OF nd, of "join '', '' (parameterBindings acc)"] b v
    by simp
  have s: "set (placeholders query) = {1..length vals}"
    unfolding pq by (auto simp: atLeastLessThanSuc_atLeastAtMost)
  have n: "length vals =
           length (dataPointForPostgres surveyId dataPoint) +
           length (filter lonLatLocation (dataPointForPostgres surveyId dataPoint))"
    using c(4) by (simp add: v slotCount_def)
  have ex: "\<exists>acc. processKeyAndValues (dataPointForPostgres surveyId dataPoint) = Inr acc \<and>
                vals = values' acc \<and> index acc = length vals + 1 \<and>
                length (columns acc) = length (dataPointForPostgres surveyId dataPoint) \<and>
                length (parameterBindings acc) = length (columns acc) \<and>
                placeholders (join '', '' (parameterBindings acc)) = [1..<Suc (length vals)]"
    using p v c b by auto
  show ?thesis
    using pq s n ex by simp
qed

theorem placeholders_match_values_witness:
  "transformToPostgresInsert ''s1''
      [(''location'', JObj [(''longitude'', JNum ''1.5''), (''latitude'', JNum ''2'')]),
       (''gender'', JStr ''male''), (''data_point_id'', JStr ''d1'')]
     = Inr (''(location, gender, survey_id, data_point_id) VALUES (ST_GeomFromText($1, $2), $3, $4, $5)'' @
            newline @ spaces 12 @ ''ON CONFLICT(data_point_id)'' @ newline @ spaces 12 @
            ''DO UPDATE SET(location, gender, survey_id, data_point_id) = (ST_GeomFromText($1, $2), $3, $4, $5)'',
            [JNum ''1.5'', JNum ''2'', JStr ''male'', JStr ''s1'', JStr ''d1'']) \<and>
   placeholders
       (''(location, gender, survey_id, data_point_id) VALUES (ST_GeomFromText($1, $2), $3, $4, $5)'' @
        newline @ spaces 12 @ ''ON CONFLICT(data_point_id)'' @ newline @ spaces 12 @
        ''DO UPDATE SET(location, gender, survey_id, data_point_id) = (ST_GeomFromText($1, $2), $3, $4, $5)'')
     = [1, 2, 3, 4, 5, 1, 2, 3, 4, 5]"
proof -
  have h: "transformToPostgresInsert ''s1''
      [(''location'', JObj [(''longitude'', JNum ''1.5''), (''latitude'', JNum ''2'')]),
       (''gender'', JStr ''male''), (''data_point_id'', JStr ''d1'')]
     = Inr (''(location, gender, survey_id, data_point_id) VALUES (ST_GeomFromText($1, $2), $3, $4, $5)'' @
            newline @ spaces 12 @ ''ON CONFLICT(data_point_id)'' @ newline @ spaces 12 @
            ''DO UPDATE SET(location, gender, survey_id, data_point_id) = (ST_GeomFromText($1, $2), $3, $4, $5)'',
            [JNum ''1.5'', JNum ''2'', JStr ''male'', JStr ''s1'', JStr ''d1''])"
    by code_simp
  have u: "[1..<Suc (length [JNum ''1.5'', JNum ''2'', JStr ''male'', JStr ''s1'', JStr ''d1''])] =
      [1, 2, 3, 4, 5]"
    by (simp add: upt_conv_Cons)
  from placeholders_match_values[OF h, THEN conjunct1]
  have "placeholders
       (''(location, gender, survey_id, data_point_id) VALUES (ST_GeomFromText($1, $2), $3, $4, $5)'' @
        newline @ spaces 12 @ ''ON CONFLICT(data_point_id)'' @ newline @ spaces 12 @
        ''DO UPDATE SET(location, gender, survey_id, data_point_id) = (ST_GeomFromText($1, $2), $3, $4, $5)'')
     = [1, 2, 3, 4, 5] @ [1, 2, 3, 4, 5]"
    by (simp only: u)
  then show ?thesis using h by simp
qed

text \<open>
  C4, as the code has it. For every supported selection of Gehl fields, the emitted CREATE
  TABLE statement has a not-null \<^verbatim>\<open>survey_id\<close> foreign-key column, a
  \<^verbatim>\<open>data_point_id\<close> primary-key column and a not-null geometry \<^verbatim>\<open>location\<close> column,
  and its columns are exactly \<^verbatim>\<open>survey_id\<close>, \<^verbatim>\<open>data_point_id\<close>, the fields of the
  selection, and the two timestamps \<^verbatim>\<open>creation_date\<close> and \<^verbatim>\<open>last_updated\<close>, which
  are there whether they are selected or not.
\<close>

theorem table_columns:
  fixes fields :: "string list"
  assumes "set fields \<subseteq> set allGehlFieldsArray"
    and "createNewTableFromGehlFields study tablename fields = Inr ddl"
  shows "ddl = createTable tablename (tableColumns (newSet fields)) \<and>
         (''survey_id'', ''UUID references data_collection.survey(survey_id) NOT NULL'')
            \<in> set (tableColumns (newSet fields)) \<and>
         (''data_point_id'', ''UUID PRIMARY KEY NOT NULL'') \<in> set (tableColumns (newSet fields)) \<and>
         (''location'', ''geometry NOT NULL'') \<in> set (tableColumns (newSet fields)) \<and>
         distinct (map fst (tableColumns (newSet fields))) \<and>
         set (map fst (tableColumns (newSet fields))) =
           {''survey_id'', ''data_point_id'', ''creation_date'', ''last_updated''} \<union> set fields"
proof -
  from assms(2) have "\<exists>ddl. createNewTableFromGehlFields study tablename fields = Inr ddl" by blast
  then have "newSet fields = genderLocationArray \<or> newSet fields = allGehlFieldsArray"
    by (simp only: provisioning_supported_iff[OF assms(1)])
  then show ?thesis
  proof
    assume n: "newSet fields = genderLocationArray"
    have f: "set fields = set genderLocationArray"
      using set_newSet[of fields] by (simp only: n)
    have d: "ddl = createTable tablename (tableColumns genderLocationArray)"
      using assms(2) create_genderLocation[OF assms(1) n, of study tablename] by simp
    have m: "(''survey_id'', ''UUID references data_collection.survey(survey_id) NOT NULL'')
            \<in> set (tableColumns genderLocationArray)"
      "(''data_point_id'', ''UUID PRIMARY KEY NOT NULL'') \<in> set (tableColumns genderLocationArray)"
      "(''location'', ''geometry NOT NULL'') \<in> set (tableColumns genderLocationArray)"
      by (simp_all add: tableColumns_def)
    show ?thesis
      unfolding n f tableColumns_genderLocation_names
      using d m distinct_names(1) names_genderLocation by simp
  next
    assume n: "newSet fields = allGehlFieldsArray"
    have f: "set fields = set allGehlFieldsArray"
      using set_newSet[of fields] by (simp only: n)
    have d: "ddl = createTable tablename (tableColumns allGehlFieldsArray)"
      using assms(2) create_allGehlFields[OF assms(1) n, of study tablename] by simp
    have m: "(''survey_id'', ''UUID references data_collection.survey(survey_id) NOT NULL'')
            \<in> set (tableColumns allGehlFieldsArray)"
      "(''data_point_id'', ''UUID PRIMARY KEY NOT NULL'') \<in> set (tableColumns allGehlFieldsArray)"
      "(''location'', ''geometry NOT NULL'') \<in> set (tableColumns allGehlFieldsArray)"
      by (simp_all add: tableColumns_def allGehl_not_genderLocation)
    show ?thesis
      unfolding n f tableColumns_allGehlFields_names
      using d m distinct_names(2) names_allGehlFields by simp
  qed
qed

theorem table_columns_witness:
  "set [''gender'', ''location'', ''gender''] \<subseteq> set allGehlFieldsArray \<and>
   createNewTableFromGehlFields () ''data_collection.study_1'' [''gender'', ''location'', ''gender''] =
     Inr (createTable ''data_collection.study_1''
       [(''survey_id'', ''UUID references data_collection.survey(survey_id) NOT NULL''),
        (''data_point_id'', ''UUID PRIMARY KEY NOT NULL''),
        (''gender'', ''data_collection.gender''),
        (''creation_date'', ''timestamptz''),
        (''last_updated'', ''timestamptz''),
        (''location'', ''geometry NOT NULL'')]) \<and>
   set (map fst (tableColumns (newSet [''gender'', ''location'', ''gender'']))) =
     {''survey_id'', ''data_point_id'', ''creation_date'', ''last_updated''} \<union>
     set [''gender'', ''location'', ''gender'']"
proof -
  have t: "set [''gender'', ''location'', ''gender''] \<subseteq> set allGehlFieldsArray"
    by (simp add: allGehlFieldsArray_def)
  have c: "createNewTableFromGehlFields () ''data_collection.study_1'' [''gender'', ''location'', ''gender''] =
     Inr (createTable ''data_collection.study_1''
       [(''survey_id'', ''UUID references data_collection.survey(survey_id) NOT NULL''),
        (''data_point_id'', ''UUID PRIMARY KEY NOT NULL''),
        (''gender'', ''data_collection.gender''),
        (''creation_date'', ''timestamptz''),
        (''last_updated'', ''timestamptz''),
        (''location'', ''geometry NOT NULL'')])"
    by code_simp
  note w = table_columns[OF t c]
  show ?thesis
    by (intro conjI t c w[THEN conjunct2, THEN conjunct2, THEN conjunct2, THEN conjunct2, THEN conjunct2])
qed

text \<open>
  C4 as stated fails: the table for the selection gender, location has the columns
  \<^verbatim>\<open>creation_date\<close> and \<^verbatim>\<open>last_updated\<close>, fields outside the selection.
\<close>

theorem timestamps_outside_selection:
  "createNewTableFromGehlFields () ''data_collection.study_1'' [''gender'', ''location''] =
     Inr (createTable ''data_collection.study_1''
       [(''survey_id'', ''UUID references data_collection.survey(survey_id) NOT NULL''),
        (''data_point_id'', ''UUID PRIMARY KEY NOT NULL''),
        (''gender'', ''data_collection.gender''),
        (''creation_date'', ''timestamptz''),
        (''last_updated'', ''timestamptz''),
        (''location'', ''geometry NOT NULL'')]) \<and>
   ''creation_date'' \<notin> set [''gender'', ''location''] \<and>
   ''last_updated'' \<notin> set [''gender'', ''location'']"
  by code_simp




text \<open>
  C6, as the code has it. For every raw data point and every one of the eleven Gehl fields
  whose value is \<^verbatim>\<open>null\<close>, encoding drops that field entirely: the result (the statement
  and its values, or the error) is exactly that of the data point without the field, so the
  data point is not rejected because of it, and the field is not among the columns.
\<close>

theorem null_field_dropped:
  "k \<in> set allGehlFieldsArray \<longrightarrow>
     transformToPostgresInsert surveyId dataPoint =
       transformToPostgresInsert surveyId (filter (\<lambda>kv. kv \<noteq> (k, JNull)) dataPoint) \<and>
     addDataPointToSurveyNoStudyId pool surveyId dataPoint db =
       addDataPointToSurveyNoStudyId pool surveyId (filter (\<lambda>kv. kv \<noteq> (k, JNull)) dataPoint) db \<and>
     ((k, JNull) \<in> set dataPoint \<and> distinct (map fst dataPoint) \<longrightarrow>
        (\<forall>acc. processKeyAndValues (dataPointForPostgres surveyId dataPoint) = Inr acc \<longrightarrow>
           k \<notin> set (columns acc)))"
proof
  assume k: "k \<in> set allGehlFieldsArray"
  have t: "transformToPostgresInsert surveyId dataPoint =
       transformToPostgresInsert surveyId (filter (\<lambda>kv. kv \<noteq> (k, JNull)) dataPoint)"
    by (simp add: transformToPostgresInsert_def dataPointForPostgres_null_field[OF k])
  have c: "k \<notin> set (columns acc)"
    if m: "(k, JNull) \<in> set dataPoint" and d: "distinct (map fst dataPoint)"
      and p: "processKeyAndValues (dataPointForPostgres surveyId dataPoint) = Inr acc" for acc
  proof -
    have "v = JNull" if "(k, v) \<in> set dataPoint" for v
      using that m d by (meson eq_key_imp_eq_value)
    then have "k \<notin> fst ` set (deleteNonGehlFields dataPoint)"
      by (auto simp: deleteNonGehlFields_def)
    moreover from k have "k \<noteq> ''survey_id''" "k \<noteq> ''data_point_id''"
      by (auto simp: allGehlFieldsArray_def)
    ultimately have nk: "k \<notin> fst ` set (dataPointForPostgres surveyId dataPoint)"
      by (auto simp: dataPointForPostgres_eq)
    then show ?thesis
      using encode_counts(1)[OF p] by simp
  qed
  show "transformToPostgresInsert surveyId dataPoint =
       transformToPostgresInsert surveyId (filter (\<lambda>kv. kv \<noteq> (k, JNull)) dataPoint) \<and>
     addDataPointToSurveyNoStudyId pool surveyId dataPoint db =
       addDataPointToSurveyNoStudyId pool surveyId (filter (\<lambda>kv. kv \<noteq> (k, JNull)) dataPoint) db \<and>
     ((k, JNull) \<in> set dataPoint \<and> distinct (map fst dataPoint) \<longrightarrow>
        (\<forall>acc. processKeyAndValues (dataPointForPostgres surveyId dataPoint) = Inr acc \<longrightarrow>
           k \<notin> set (columns acc)))"
  proof (intro conjI allI impI)
    show "transformToPostgresInsert surveyId dataPoint =
       transformToPostgresInsert surveyId (filter (\<lambda>kv. kv \<noteq> (k, JNull)) dataPoint)"
      by (rule t)
    show "addDataPointToSurveyNoStudyId pool surveyId dataPoint db =
       addDataPointToSurveyNoStudyId pool surveyId (filter (\<lambda>kv. kv \<noteq> (k, JNull)) dataPoint) db"
      by (rule addDataPoint_cong[OF t])
  next
    fix acc
    assume a: "(k, JNull) \<in> set dataPoint \<and> distinct (map fst dataPoint)"
      and p: "processKeyAndValues (dataPointForPostgres surveyId dataPoint) = Inr acc"
    show "k \<notin> set (columns acc)"
      by (rule c[OF conjunct1[OF a] conjunct2[OF a] p])
  qed
qed

theorem null_field_dropped_witness:
  "''gender'' \<in> set allGehlFieldsArray \<and>
   (''gender'', JNull) \<in> set [(''gender'', JNull), (''age'', JStr ''child''), (''data_point_id'', JStr ''d1'')] \<and>
   distinct (map fst [(''gender'', JNull), (''age'', JStr ''child''), (''data_point_id'', JStr ''d1'')]) \<and>
   transformToPostgresInsert ''s1''
       [(''gender'', JNull), (''age'', JStr ''child''), (''data_point_id'', JStr ''d1'')] =
     transformToPostgresInsert ''s1'' [(''age'', JStr ''child''), (''data_point_id'', JStr ''d1'')] \<and>
   processKeyAndValues (dataPointForPostgres ''s1''
       [(''gender'', JNull), (''age'', JStr ''child''), (''data_point_id'', JStr ''d1'')]) =
     Inr \<lparr> columns = [''age'', ''survey_id'', ''data_point_id''],
           values' = [JStr ''0-14'', JStr ''s1'', JStr ''d1''],
           parameterBindings = [''$1'', ''$2'', ''$3''], index = 4 \<rparr> \<and>
   ''gender'' \<notin> set [''age'', ''survey_id'', ''data_point_id'']"
proof -
  have h: "processKeyAndValues (dataPointForPostgres ''s1''
       [(''gender'', JNull), (''age'', JStr ''child''), (''data_point_id'', JStr ''d1'')]) =
     Inr \<lparr> columns = [''age'', ''survey_id'', ''data_point_id''],
           values' = [JStr ''0-14'', JStr ''s1'', JStr ''d1''],
           parameterBindings = [''$1'', ''$2'', ''$3''], index = 4 \<rparr>"
    by code_simp
  show ?thesis
    using h null_field_dropped [where k = "''gender''" and surveyId = "''s1''"
      and dataPoint = "[(''gender'', JNull), (''age'', JStr ''child''), (''data_point_id'', JStr ''d1'')]"
      and pool = examplePool and db = "[]"]
    by (simp add: allGehlFieldsArray_def)
qed

text \<open>
  C6 as stated fails: a field whose value is \<^verbatim>\<open>undefined\<close> is kept, bound to the text
  \<^verbatim>\<open>undefined\<close>, and a \<^verbatim>\<open>null\<close> \<^verbatim>\<open>data_point_id\<close> is bound to the text \<^verbatim>\<open>null\<close>.
\<close>

theorem undefined_field_kept:
  "transformToPostgresInsert ''s1'' [(''gender'', JUndefined), (''data_point_id'', JNull)] =
     Inr (''(gender, survey_id, data_point_id) VALUES ($1, $2, $3)'' @ newline @ spaces 12 @
          ''ON CONFLICT(data_point_id)'' @ newline @ spaces 12 @
          ''DO UPDATE SET(gender, survey_id, data_point_id) = ($1, $2, $3)'',
          [JStr ''undefined'', JStr ''s1'', JStr ''null''])"
  by code_simp

text \<open>
  C7. For every raw data point that encodes successfully, the produced statement is an
  INSERT whose column list and placeholder list are followed by an
  \<^verbatim>\<open>ON CONFLICT(data_point_id) DO UPDATE SET\<close> clause that assigns the same column list
  to the same placeholder list: every included column is set to the newly bound value,
  keyed on \<^verbatim>\<open>data_point_id\<close>, which is always among the columns.
\<close>

theorem upsert_statement_shape:
  assumes "processKeyAndValues (dataPointForPostgres surveyId dataPoint) = Inr acc"
  shows "transformToPostgresInsert surveyId dataPoint =
           Inr (''('' @ join '', '' (columns acc) @ '') VALUES ('' @
                  join '', '' (parameterBindings acc) @ '')'' @ newline @ spaces 12 @
                ''ON CONFLICT(data_point_id)'' @ newline @ spaces 12 @
                ''DO UPDATE SET('' @ join '', '' (columns acc) @ '') = ('' @
                  join '', '' (parameterBindings acc) @ '')'',
                values' acc) \<and>
         columns acc = map fst (dataPointForPostgres surveyId dataPoint) \<and>
         length (parameterBindings acc) = length (columns acc) \<and>
         ''data_point_id'' \<in> set (columns acc) \<and>
         (getTablenameForSurveyId pool surveyId db = (Inr tablename, db') \<and>
          toString tablename = Inr name \<longrightarrow>
            addDataPointToSurveyNoStudyId pool surveyId dataPoint db =
              pool db' (''INSERT INTO '' @ name @ newline @ spaces 19 @
                        ''('' @ join '', '' (columns acc) @ '') VALUES ('' @
                          join '', '' (parameterBindings acc) @ '')'' @ newline @ spaces 12 @
                        ''ON CONFLICT(data_point_id)'' @ newline @ spaces 12 @
                        ''DO UPDATE SET('' @ join '', '' (columns acc) @ '') = ('' @
                          join '', '' (parameterBindings acc) @ '')'')
                       (Some (values' acc)))"
proof -
  note c = encode_counts[OF assms]
  have t: "transformToPostgresInsert surveyId dataPoint =
      Inr (upsertQuery (columns acc) (parameterBindings acc), values' acc)"
    by (simp add: transformToPostgresInsert_def assms)
  have q: "upsertQuery (columns acc) (parameterBindings acc) =
      ''('' @ join '', '' (columns acc) @ '') VALUES ('' @
                  join '', '' (parameterBindings acc) @ '')'' @ newline @ spaces 12 @
                ''ON CONFLICT(data_point_id)'' @ newline @ spaces 12 @
                ''DO UPDATE SET('' @ join '', '' (columns acc) @ '') = ('' @
                  join '', '' (parameterBindings acc) @ '')''"
    by (simp add: upsertQuery_def insert_statement_def)
  have d: "''data_point_id'' \<in> set (columns acc)"
    by (simp add: c(1) dataPointForPostgres_eq)
  have i: "addDataPointToSurveyNoStudyId pool surveyId dataPoint db =
      pool db' (''INSERT INTO '' @ name @ newline @ spaces 19 @
                upsertQuery (columns acc) (parameterBindings acc))
        (Some (values' acc))"
    if "getTablenameForSurveyId pool surveyId db = (Inr tablename, db')"
      and "toString tablename = Inr name"
    by (rule addDataPoint_issues[OF that(1) t that(2)])
  show ?thesis
    using t d i c(1,2) unfolding q by simp
qed

theorem upsert_statement_shape_witness:
  "processKeyAndValues (dataPointForPostgres ''s1''
      [(''gender'', JStr ''male''), (''data_point_id'', JStr ''d1'')])
     = Inr \<lparr> columns = [''gender'', ''survey_id'', ''data_point_id''],
             values' = [JStr ''male'', JStr ''s1'', JStr ''d1''],
             parameterBindings = [''$1'', ''$2'', ''$3''],
             index = 4 \<rparr> \<and>
   getTablenameForSurveyId examplePool ''s1'' [] = (Inr (JStr ''data_collection.study_1''), []) \<and>
   transformToPostgresInsert ''s1'' [(''gender'', JStr ''male''), (''data_point_id'', JStr ''d1'')]
     = Inr (''(gender, survey_id, data_point_id) VALUES ($1, $2, $3)'' @ newline @ spaces 12 @
            ''ON CONFLICT(data_point_id)'' @ newline @ spaces 12 @
            ''DO UPDATE SET(gender, survey_id, data_point_id) = ($1, $2, $3)'',
            [JStr ''male'', JStr ''s1'', JStr ''d1''])"
proof -
  have h: "processKeyAndValues (dataPointForPostgres ''s1''
      [(''gender'', JStr ''male''), (''data_point_id'', JStr ''d1'')])
     = Inr \<lparr> columns = [''gender'', ''survey_id'', ''data_point_id''],
             values' = [JStr ''male'', JStr ''s1'', JStr ''d1''],
             parameterBindings = [''$1'', ''$2'', ''$3''],
             index = 4 \<rparr>"
    by code_simp
  have g: "getTablenameForSurveyId examplePool ''s1'' [] = (Inr (JStr ''data_collection.study_1''), [])"
    by code_simp
  show ?thesis
    using h g upsert_statement_shape[OF h, where pool = examplePool and db = "[]"
        and tablename = "JStr ''data_collection.study_1''" and db' = "[]"
        and name = "''data_collection.study_1''"]
    by simp
qed




text \<open>
  C9. For every surveyId and dataPointId, \<^verbatim>\<open>deleteDataPoint\<close> raises the not-found error
  whenever the DELETE it issues affects zero rows, and returns normally exactly when one row
  was affected. Deleting an id a second time therefore is an error, not a silent success.
\<close>

theorem delete_not_found:
  "(getTablenameForSurveyId pool surveyId db = (Inr tablename, db') \<and>
    toString tablename = Inr name \<and> toString dataPointId = Inr ident \<and>
    pool db' (''DELETE FROM '' @ name @ newline @ spaces 19 @
              ''WHERE data_point_id = '' @ [CHR 0x27] @ ident @ [CHR 0x27]) None = (Inr res, db'') \<longrightarrow>
      (rowCount res = 0 \<longrightarrow>
         deleteDataPoint pool surveyId dataPointId db =
           (Inl (NoDataPointFound dataPointId), db'')) \<and>
      (rowCount res \<noteq> 1 \<longrightarrow>
         deleteDataPoint pool surveyId dataPointId db =
           (Inl (NoDataPointFound dataPointId), db'')) \<and>
      (rowCount res = 1 \<longrightarrow>
         deleteDataPoint pool surveyId dataPointId db = (Inr res, db''))) \<and>
   ((\<exists>r d. deleteDataPoint pool surveyId dataPointId db = (Inr r, d)) =
    (\<exists>tn db1 nm idt r db2.
        getTablenameForSurveyId pool surveyId db = (Inr tn, db1) \<and>
        toString tn = Inr nm \<and> toString dataPointId = Inr idt \<and>
        pool db1 (''DELETE FROM '' @ nm @ newline @ spaces 19 @
                  ''WHERE data_point_id = '' @ [CHR 0x27] @ idt @ [CHR 0x27]) None = (Inr r, db2) \<and>
        rowCount r = 1))"
proof (intro conjI impI)
  assume a: "getTablenameForSurveyId pool surveyId db = (Inr tablename, db') \<and>
    toString tablename = Inr name \<and> toString dataPointId = Inr ident \<and>
    pool db' (''DELETE FROM '' @ name @ newline @ spaces 19 @
              ''WHERE data_point_id = '' @ [CHR 0x27] @ ident @ [CHR 0x27]) None = (Inr res, db'')"
  then have d: "deleteDataPoint pool surveyId dataPointId db =
      (if rowCount res \<noteq> 1 then (Inl (NoDataPointFound dataPointId), db'') else (Inr res, db''))"
    by (simp add: deleteDataPoint_def deleteQuery_def)
  show "rowCount res = 0 \<Longrightarrow>
      deleteDataPoint pool surveyId dataPointId db = (Inl (NoDataPointFound dataPointId), db'')"
    by (simp add: d)
  show "rowCount res \<noteq> 1 \<Longrightarrow>
      deleteDataPoint pool surveyId dataPointId db = (Inl (NoDataPointFound dataPointId), db'')"
    by (simp add: d)
  show "rowCount res = 1 \<Longrightarrow> deleteDataPoint pool surveyId dataPointId db = (Inr res, db'')"
    by (simp add: d)
next
  show "(\<exists>r d. deleteDataPoint pool surveyId dataPointId db = (Inr r, d)) =
    (\<exists>tn db1 nm idt r db2.
        getTablenameForSurveyId pool surveyId db = (Inr tn, db1) \<and>
        toString tn = Inr nm \<and> toString dataPointId = Inr idt \<and>
        pool db1 (''DELETE FROM '' @ nm @ newline @ spaces 19 @
                  ''WHERE data_point_id = '' @ [CHR 0x27] @ idt @ [CHR 0x27]) None = (Inr r, db2) \<and>
        rowCount r = 1)"
    by (auto simp: deleteDataPoint_def deleteQuery_def split: prod.splits sum.splits if_splits)
qed

theorem delete_not_found_witness:
  "getTablenameForSurveyId examplePool ''s1'' [''d1'', ''d2''] =
     (Inr (JStr ''data_collection.study_1''), [''d1'', ''d2'']) \<and>
   examplePool [''d1'', ''d2'']
       (''DELETE FROM '' @ ''data_collection.study_1'' @ newline @ spaces 19 @
        ''WHERE data_point_id = '' @ [CHR 0x27] @ ''d1'' @ [CHR 0x27]) None =
     (Inr \<lparr> rowCount = 1, rows = [] \<rparr>, [''d2'']) \<and>
   deleteDataPoint examplePool ''s1'' (JStr ''d1'') [''d1'', ''d2''] =
     (Inr \<lparr> rowCount = 1, rows = [] \<rparr>, [''d2'']) \<and>
   getTablenameForSurveyId examplePool ''s1'' [''d2''] =
     (Inr (JStr ''data_collection.study_1''), [''d2'']) \<and>
   examplePool [''d2'']
       (''DELETE FROM '' @ ''data_collection.study_1'' @ newline @ spaces 19 @
        ''WHERE data_point_id = '' @ [CHR 0x27] @ ''d1'' @ [CHR 0x27]) None =
     (Inr \<lparr> rowCount = 0, rows = [] \<rparr>, [''d2'']) \<and>
   deleteDataPoint examplePool ''s1'' (JStr ''d1'') [''d2''] =
     (Inl (NoDataPointFound (JStr ''d1'')), [''d2''])"
proof -
  have g1: "getTablenameForSurveyId examplePool ''s1'' [''d1'', ''d2''] =
     (Inr (JStr ''data_collection.study_1''), [''d1'', ''d2''])"
    by code_simp
  have p1: "examplePool [''d1'', ''d2'']
       (''DELETE FROM '' @ ''data_collection.study_1'' @ newline @ spaces 19 @
        ''WHERE data_point_id = '' @ [CHR 0x27] @ ''d1'' @ [CHR 0x27]) None =
     (Inr \<lparr> rowCount = 1, rows = [] \<rparr>, [''d2''])"
    by code_simp
  have g2: "getTablenameForSurveyId examplePool ''s1'' [''d2''] =
     (Inr (JStr ''data_collection.study_1''), [''d2''])"
    by code_simp
  have p2: "examplePool [''d2'']
       (''DELETE FROM '' @ ''data_collection.study_1'' @ newline @ spaces 19 @
        ''WHERE data_point_id = '' @ [CHR 0x27] @ ''d1'' @ [CHR 0x27]) None =
     (Inr \<lparr> rowCount = 0, rows = [] \<rparr>, [''d2''])"
    by code_simp
  have t: "toString (JStr ''data_collection.study_1'') = Inr ''data_collection.study_1''"
    "toString (JStr ''d1'') = Inr ''d1''"
    by simp_all
  note w1 = delete_not_found [where pool = examplePool and surveyId = "''s1''"
        and dataPointId = "JStr ''d1''" and db = "[''d1'', ''d2'']"
        and tablename = "JStr ''data_collection.study_1''" and name = "''data_collection.study_1''"
        and ident = "''d1''" and db' = "[''d1'', ''d2'']"
        and res = "\<lparr> rowCount = 1, rows = [] \<rparr>" and db'' = "[''d2'']", THEN conjunct1, rule_format]
  note w2 = delete_not_found [where pool = examplePool and surveyId = "''s1''"
        and dataPointId = "JStr ''d1''" and db = "[''d2'']"
        and tablename = "JStr ''data_collection.study_1''" and name = "''data_collection.study_1''"
        and ident = "''d1''" and db' = "[''d2'']"
        and res = "\<lparr> rowCount = 0, rows = [] \<rparr>" and db'' = "[''d2'']", THEN conjunct1, rule_format]
  have d1: "deleteDataPoint examplePool ''s1'' (JStr ''d1'') [''d1'', ''d2''] =
     (Inr \<lparr> rowCount = 1, rows = [] \<rparr>, [''d2''])"
    using w1[OF conjI[OF g1 conjI[OF t(1) conjI[OF t(2) p1]]]] by simp
  have d2: "deleteDataPoint examplePool ''s1'' (JStr ''d1'') [''d2''] =
     (Inl (NoDataPointFound (JStr ''d1'')), [''d2''])"
    using w2[OF conjI[OF g2 conjI[OF t(1) conjI[OF t(2) p2]]]] by simp
  show ?thesis
    by (intro conjI g1 p1 d1 g2 p2 d2)
qed

text \<open>
  C10, as the code has it. For every data point whose \<^verbatim>\<open>activities\<close> value is a list
  containing \<^verbatim>\<open>null\<close>, as an element or inside a nested list at any depth, encoding
  raises an error: the data point is rejected as a whole and no statement is produced. The
  array conversion returns a literal exactly for the lists that hold neither a \<^verbatim>\<open>null\<close>
  nor an object with an own \<^verbatim>\<open>toString\<close> property at any depth, and raises the null
  error only for a list with a \<^verbatim>\<open>null\<close> in it; so a statement is produced only from a
  list without \<^verbatim>\<open>null\<close>.
\<close>

theorem null_in_activities_rejected:
  "(containsNull xs \<longrightarrow>
      isl (javascriptArrayToPostgresArray xs) \<and>
      isl (processDataPointToValue ''activities'' (JArr xs)) \<and>
      ((''activities'', JArr xs) \<in> set dataPoint \<longrightarrow>
         isl (transformToPostgresInsert surveyId dataPoint) \<and>
         isl (fst (addDataPointToSurveyNoStudyId pool surveyId dataPoint db)))) \<and>
   (containsNull xs \<and> \<not> containsUnprintable xs \<longrightarrow>
      javascriptArrayToPostgresArray xs = Inl ArrayContainsNull) \<and>
   (javascriptArrayToPostgresArray xs = Inl ArrayContainsNull \<longrightarrow> containsNull xs) \<and>
   ((\<exists>literal. javascriptArrayToPostgresArray xs = Inr literal) =
      (\<not> containsNull xs \<and> \<not> containsUnprintable xs)) \<and>
   ((''activities'', JArr xs) \<in> set dataPoint \<and>
    transformToPostgresInsert surveyId dataPoint = Inr (query, vals) \<longrightarrow> \<not> containsNull xs)"
proof -
  have a: "isl (javascriptArrayToPostgresArray xs)" if "containsNull xs"
    using that by (simp only: javascriptArray_isl simp_thms)
  have b: "isl (processDataPointToValue ''activities'' (JArr xs))" if "containsNull xs"
    using a[OF that] by (simp only: activities_isl)
  have c: "isl (transformToPostgresInsert surveyId dataPoint)"
    if n: "containsNull xs" and m: "(''activities'', JArr xs) \<in> set dataPoint"
  proof -
    from b[OF n] obtain e where "processDataPointToValue ''activities'' (JArr xs) = Inl e"
      by (cases "processDataPointToValue ''activities'' (JArr xs)") simp_all
    then show ?thesis
      by (rule encode_fails[OF m, rotated 2]) (simp_all add: allGehlFieldsArray_def)
  qed
  have d: "javascriptArrayToPostgresArray xs = Inl ArrayContainsNull"
    if "containsNull xs" and "\<not> containsUnprintable xs"
  proof -
    from a[OF that(1)] obtain e where e: "javascriptArrayToPostgresArray xs = Inl e"
      by (cases "javascriptArrayToPostgresArray xs") simp_all
    from javascriptArray_errors[OF e] that(2) have "e = ArrayContainsNull" by blast
    with e show ?thesis by simp
  qed
  have f: "containsNull xs" if "javascriptArrayToPostgresArray xs = Inl ArrayContainsNull"
    using javascriptArray_errors[OF that] by blast
  have g: "(\<exists>literal. javascriptArrayToPostgresArray xs = Inr literal) =
      (\<not> containsNull xs \<and> \<not> containsUnprintable xs)"
    using javascriptArray_isl[of xs]
    by (cases "javascriptArrayToPostgresArray xs") simp_all
  have h: "\<not> containsNull xs"
    if "(''activities'', JArr xs) \<in> set dataPoint"
      and "transformToPostgresInsert surveyId dataPoint = Inr (query, vals)"
    using c[OF _ that(1)] that(2) by auto
  show ?thesis
  proof (intro conjI impI)
    assume n: "containsNull xs"
    show "isl (javascriptArrayToPostgresArray xs)" by (rule a[OF n])
    show "isl (processDataPointToValue ''activities'' (JArr xs))" by (rule b[OF n])
    assume m: "(''activities'', JArr xs) \<in> set dataPoint"
    show "isl (transformToPostgresInsert surveyId dataPoint)" by (rule c[OF n m])
    show "isl (fst (addDataPointToSurveyNoStudyId pool surveyId dataPoint db))"
      by (rule addDataPoint_fails[OF c[OF n m]])
  next
    assume "containsNull xs \<and> \<not> containsUnprintable xs"
    then show "javascriptArrayToPostgresArray xs = Inl ArrayContainsNull"
      using d by blast
  next
    assume "javascriptArrayToPostgresArray xs = Inl ArrayContainsNull"
    then show "containsNull xs" by (rule f)
  next
    show "(\<exists>literal. javascriptArrayToPostgresArray xs = Inr literal) =
      (\<not> containsNull xs \<and> \<not> containsUnprintable xs)" by (rule g)
  next
    assume "(''activities'', JArr xs) \<in> set dataPoint \<and>
      transformToPostgresInsert surveyId dataPoint = Inr (query, vals)"
    then show "\<not> containsNull xs" using h by blast
  qed
qed

theorem null_in_activities_rejected_witness:
  "containsNull [JStr ''commercial'', JArr [JStr ''cultural'', JNull]] \<and>
   \<not> containsUnprintable [JStr ''commercial'', JArr [JStr ''cultural'', JNull]] \<and>
   javascriptArrayToPostgresArray [JStr ''commercial'', JArr [JStr ''cultural'', JNull]]
      = Inl ArrayContainsNull \<and>
   isl (transformToPostgresInsert ''s1''
          [(''activities'', JArr [JStr ''commercial'', JArr [JStr ''cultural'', JNull]])]) \<and>
   \<not> containsNull [JStr ''commercial'', JArr [JStr ''cultural'']] \<and>
   \<not> containsUnprintable [JStr ''commercial'', JArr [JStr ''cultural'']] \<and>
   (\<exists>literal. javascriptArrayToPostgresArray [JStr ''commercial'', JArr [JStr ''cultural'']]
      = Inr literal)"
proof -
  have n: "containsNull [JStr ''commercial'', JArr [JStr ''cultural'', JNull]]" by simp
  have u: "\<not> containsUnprintable [JStr ''commercial'', JArr [JStr ''cultural'', JNull]]" by simp
  have m: "(''activities'', JArr [JStr ''commercial'', JArr [JStr ''cultural'', JNull]])
      \<in> set [(''activities'', JArr [JStr ''commercial'', JArr [JStr ''cultural'', JNull]])]" by simp
  have n': "\<not> containsNull [JStr ''commercial'', JArr [JStr ''cultural'']]" by simp
  have u': "\<not> containsUnprintable [JStr ''commercial'', JArr [JStr ''cultural'']]" by simp
  note w = null_in_activities_rejected [where xs = "[JStr ''commercial'', JArr [JStr ''cultural'', JNull]]"
      and surveyId = "''s1''"
      and dataPoint = "[(''activities'', JArr [JStr ''commercial'', JArr [JStr ''cultural'', JNull]])]"
      and pool = examplePool and db = "[]"]
  note w' = null_in_activities_rejected [where xs = "[JStr ''commercial'', JArr [JStr ''cultural'']]"
      and surveyId = "''s1''" and dataPoint = "[]" and pool = examplePool and db = "[]"]
  have e: "javascriptArrayToPostgresArray [JStr ''commercial'', JArr [JStr ''cultural'', JNull]]
      = Inl ArrayContainsNull"
    by (rule w[THEN conjunct2, THEN conjunct1, rule_format, OF conjI[OF n u]])
  have r: "isl (transformToPostgresInsert ''s1''
          [(''activities'', JArr [JStr ''commercial'', JArr [JStr ''cultural'', JNull]])])"
    by (rule w[THEN conjunct1, rule_format, OF n, THEN conjunct2, THEN conjunct2, rule_format, OF m,
          THEN conjunct1])
  have l: "\<exists>literal. javascriptArrayToPostgresArray [JStr ''commercial'', JArr [JStr ''cultural'']]
      = Inr literal"
    by (rule iffD2[OF w'[THEN conjunct2, THEN conjunct2, THEN conjunct2, THEN conjunct1] conjI[OF n' u']])
  show ?thesis
    by (intro conjI n u e r n' u' l)
qed

text \<open>
  C10 as stated fails in its consequence: the literal of the list holding the string
  \<^verbatim>\<open>null\<close> is \<^verbatim>\<open>{null}\<close>, its one element the very text a \<^verbatim>\<open>null\<close> is
  serialized to, and the data point is encoded with it.
\<close>

theorem null_text_in_literal:
  "javascriptArrayToPostgresArray [JStr ''null''] = Inr ''{null}'' \<and>
   toString JNull = Inr ''null'' \<and>
   transformToPostgresInsert ''s1'' [(''activities'', JArr [JStr ''null'']), (''data_point_id'', JStr ''d1'')] =
     Inr (''(activities, survey_id, data_point_id) VALUES ($1, $2, $3)'' @ newline @ spaces 12 @
          ''ON CONFLICT(data_point_id)'' @ newline @ spaces 12 @
          ''DO UPDATE SET(activities, survey_id, data_point_id) = ($1, $2, $3)'',
          [JStr ''{null}'', JStr ''s1'', JStr ''d1''])"
  by code_simp

end
